theory Spec2Isabelle
  imports Complex_Main "HOL-Library.Char_ord" "HOL-Library.List_Lexorder" "HOL-Library.AList" "HOL-Library.Product_Lexorder"
    "HOL-Library.Multiset" "HOL-Library.Transitive_Closure_Table"
begin

section \<open>Values and errors\<close>

text \<open>
  Parsed YAML as the builders receive it: scalars, lists and insertion-ordered
  dictionaries with string keys. Python's unbounded integers are \<open>int\<close>; float
  scalars are not part of this model.
\<close>

datatype yaml =
    YNull
  | YBool bool
  | YInt int
  | YStr string
  | YList "yaml list"
  | YDict "(string \<times> yaml) list"

text \<open>Exceptions are values; each constructor carries the message of the raise.\<close>

datatype error =
    ValueError string
  | KeyError string
  | TypeError string
  | AttributeError string
  | IndexError string
  | GraphBuilderError string
  | BooleanBuilderError string
  | ParameterResolutionError string

section \<open>dag/model\_graph.py\<close>

datatype NodeType = PARAMETER | PART | OPERATION | REFERENCE | SKETCH

fun NodeType_value :: "NodeType \<Rightarrow> string" where
  "NodeType_value PARAMETER = ''parameter''"
| "NodeType_value PART = ''part''"
| "NodeType_value OPERATION = ''operation''"
| "NodeType_value REFERENCE = ''reference''"
| "NodeType_value SKETCH = ''sketch''"

record GraphNode =
  node_id :: string
  node_type :: NodeType
  name :: string
  spec :: yaml
  hash_value :: "string option"
  last_built :: "rat option"
  is_valid :: bool
  is_pattern :: bool
  metadata :: "(string \<times> yaml) list"

text \<open>
  \<open>nx.DiGraph\<close> as the lists of its nodes and of its edges, both in insertion order
  and without repetition (adding a node or an edge that is already there changes
  nothing).
\<close>

record DiGraph =
  dg_nodes :: "string list"
  dg_edges :: "(string \<times> string) list"

definition DiGraph_init :: DiGraph where
  "DiGraph_init = \<lparr>dg_nodes = [], dg_edges = []\<rparr>"

definition dg_add_node :: "DiGraph \<Rightarrow> string \<Rightarrow> DiGraph" where
  "dg_add_node g n = (if n \<in> set (dg_nodes g) then g else g\<lparr>dg_nodes := dg_nodes g @ [n]\<rparr>)"

definition dg_add_edge :: "DiGraph \<Rightarrow> string \<Rightarrow> string \<Rightarrow> DiGraph" where
  "dg_add_edge g u v =
     (let g1 = dg_add_node (dg_add_node g u) v
      in if (u, v) \<in> set (dg_edges g1) then g1 else g1\<lparr>dg_edges := dg_edges g1 @ [(u, v)]\<rparr>)"

text \<open>
  The \<open>nodes\<close> dictionary is an association list in insertion order; the node
  objects it holds are updated in place by \<open>mark_invalid\<close> and \<open>mark_valid\<close>.
\<close>

record ModelGraph =
  graph :: DiGraph
  nodes :: "(string \<times> GraphNode) list"
  valid_nodes :: "string set"

definition ModelGraph_init :: ModelGraph where
  "ModelGraph_init = \<lparr>graph = DiGraph_init, nodes = [], valid_nodes = {}\<rparr>"

definition contains :: "ModelGraph \<Rightarrow> string \<Rightarrow> bool" where
  "contains g nid = (nid \<in> fst ` set (nodes g))"

definition add_node :: "ModelGraph \<Rightarrow> GraphNode \<Rightarrow> error + ModelGraph" where
  "add_node g node =
     (if contains g (node_id node)
      then Inl (ValueError (''Node '' @ [CHR 0x27] @ node_id node @ [CHR 0x27] @ '' already exists in graph''))
      else Inr (g\<lparr>nodes := AList.update (node_id node) node (nodes g),
                  graph := dg_add_node (graph g) (node_id node),
                  valid_nodes := (if is_valid node then insert (node_id node) (valid_nodes g)
                                  else valid_nodes g)\<rparr>))"

text \<open>
  \<open>add_dependency(dependent, dependency)\<close>: \<open>dep_on\<close> is the dependent node, \<open>dep_of\<close>
  the node it depends on; the edge runs from the dependency to the dependent.
\<close>

definition add_dependency :: "ModelGraph \<Rightarrow> string \<Rightarrow> string \<Rightarrow> error + ModelGraph" where
  "add_dependency g dep_on dep_of =
     (if \<not> contains g dep_on
      then Inl (ValueError (''Dependent node '' @ [CHR 0x27] @ dep_on @ [CHR 0x27] @ '' not found in graph''))
      else if \<not> contains g dep_of
      then Inl (ValueError (''Dependency node '' @ [CHR 0x27] @ dep_of @ [CHR 0x27] @ '' not found in graph''))
      else Inr (g\<lparr>graph := dg_add_edge (graph g) dep_of dep_on\<rparr>))"

definition mark_invalid :: "ModelGraph \<Rightarrow> string \<Rightarrow> ModelGraph" where
  "mark_invalid g nid =
     (case map_of (nodes g) nid of
        None \<Rightarrow> g
      | Some n \<Rightarrow> g\<lparr>nodes := AList.update nid (n\<lparr>is_valid := False\<rparr>) (nodes g),
                     valid_nodes := valid_nodes g - {nid}\<rparr>)"

text \<open>
  \<open>timestamp or time.time()\<close>: a missing or zero timestamp is replaced by the clock
  reading \<open>now\<close>, which is an input of the model.
\<close>

definition mark_valid :: "ModelGraph \<Rightarrow> string \<Rightarrow> rat option \<Rightarrow> rat \<Rightarrow> ModelGraph" where
  "mark_valid g nid timestamp now =
     (case map_of (nodes g) nid of
        None \<Rightarrow> g
      | Some n \<Rightarrow>
          g\<lparr>nodes := AList.update nid
                 (n\<lparr>is_valid := True,
                    last_built := Some (case timestamp of None \<Rightarrow> now
                                        | Some t \<Rightarrow> if t = 0 then now else t)\<rparr>) (nodes g),
             valid_nodes := insert nid (valid_nodes g)\<rparr>)"

text \<open>
  A caller's sequence of operations. An \<open>add_node\<close> that raises leaves the graph as
  it was (the check precedes every assignment), so a caller that catches the
  error continues from the same graph.
\<close>

datatype graph_op =
    AddNode GraphNode
  | MarkInvalid string
  | MarkValid string "rat option" rat

fun apply_graph_op :: "ModelGraph \<Rightarrow> graph_op \<Rightarrow> ModelGraph" where
  "apply_graph_op g (AddNode n) = (case add_node g n of Inl _ \<Rightarrow> g | Inr g' \<Rightarrow> g')"
| "apply_graph_op g (MarkInvalid nid) = mark_invalid g nid"
| "apply_graph_op g (MarkValid nid ts now) = mark_valid g nid ts now"

definition run_graph_ops :: "graph_op list \<Rightarrow> ModelGraph" where
  "run_graph_ops ops = foldl apply_graph_op ModelGraph_init ops"

definition flagged_valid :: "ModelGraph \<Rightarrow> string set" where
  "flagged_valid g = set (map fst (filter (\<lambda>kv. is_valid (snd kv)) (nodes g)))"

text \<open>
  The dictionary of nodes has one entry per node id, and the valid set holds
  exactly the ids whose node is flagged valid.
\<close>
definition graph_inv :: "ModelGraph \<Rightarrow> bool" where
  "graph_inv g = (distinct (map fst (nodes g)) \<and> valid_nodes g = flagged_valid g)"

text \<open>Two nodes used as concrete inputs.\<close>

definition node_width :: GraphNode where
  "node_width = \<lparr>node_id = ''parameter:width'', node_type = PARAMETER, name = ''width'',
     spec = YDict [(''value'', YInt 100)], hash_value = None, last_built = None,
     is_valid = True, is_pattern = False, metadata = []\<rparr>"

definition node_base :: GraphNode where
  "node_base = \<lparr>node_id = ''part:base'', node_type = PART, name = ''base'',
     spec = YDict [(''primitive'', YStr ''box'')], hash_value = None, last_built = None,
     is_valid = False, is_pattern = False, metadata = []\<rparr>"

text \<open>
  The constructor of \<open>GraphNode\<close> with the defaults of the dataclass, followed by
  \<open>__post_init__\<close>, which checks the form of the node id.
\<close>

definition GraphNode_new ::
  "string \<Rightarrow> NodeType \<Rightarrow> string \<Rightarrow> yaml \<Rightarrow> string option \<Rightarrow> bool \<Rightarrow> error + GraphNode" where
  "GraphNode_new nid ntype nm spc hash pat =
     (if CHR '':'' \<notin> set nid
      then Inl (ValueError (''node_id must be in format '' @ [CHR 0x27] @ ''type:name'' @ [CHR 0x27]
             @ '', got: '' @ nid))
      else if take (length (NodeType_value ntype @ '':'')) nid \<noteq> NodeType_value ntype @ '':''
      then Inl (ValueError (''node_id '' @ [CHR 0x27] @ nid @ [CHR 0x27] @ '' doesn'' @ [CHR 0x27]
             @ ''t match type '' @ [CHR 0x27] @ NodeType_value ntype @ [CHR 0x27]))
      else Inr \<lparr>node_id = nid, node_type = ntype, name = nm, spec = spc, hash_value = hash,
                 last_built = None, is_valid = True, is_pattern = pat, metadata = []\<rparr>)"

section \<open>part.py\<close>

text \<open>
  A position is a triple of coordinates. \<open>Part\<close> stores and compares positions and
  never computes with them, so the coordinates are modelled by rationals.
\<close>

type_synonym pos = "rat \<times> rat \<times> rat"

text \<open>
  The \<open>Part\<close> dataclass. Its \<open>geometry\<close>, \<open>metadata\<close> and \<open>transform_history\<close> fields
  hold Python objects; the record is polymorphic in how these are represented:
  as references into a store where identity of the objects matters, as their
  contents where it does not.
\<close>

record ('g, 'm, 't) Part =
  name :: string
  geometry :: 'g
  metadata :: 'm
  transform_history :: 't
  current_position :: "pos option"
  backend :: "nat option"

subsection \<open>Parts as objects in a store\<close>

text \<open>
  The store is the list of allocated objects; a reference is an index into it.
  A geometry handle is opaque (its payload is a number standing for the backend
  object). A dictionary holds immutable values; a list holds references, so a
  shallow copy of a list shares its elements.
\<close>

type_synonym ref = nat

datatype pyobj =
    PyGeometry nat
  | PyDict "(string \<times> yaml) list"
  | PyList "ref list"

type_synonym store = "pyobj list"

type_synonym part_obj = "(ref, ref, ref) Part"

definition deref :: "store \<Rightarrow> ref \<Rightarrow> pyobj option" where
  "deref h r = (if r < length h then Some (h ! r) else None)"

definition alloc :: "store \<Rightarrow> pyobj \<Rightarrow> ref \<times> store" where
  "alloc h ob = (length h, h @ [ob])"

text \<open>
  \<open>__post_init__\<close>: a part built without a position takes the centre of its
  geometry. The centre comes from the backend when there is one and from
  \<open>utils.geometry.get_center\<close> otherwise; both are outside this file and are passed
  in as \<open>get_center\<close>, which may raise.
\<close>

definition post_init ::
  "('g \<Rightarrow> error + pos) \<Rightarrow> ('g, 'm, 't) Part \<Rightarrow> error + ('g, 'm, 't) Part" where
  "post_init get_center p =
     (case current_position p of
        Some _ \<Rightarrow> Inr p
      | None \<Rightarrow> (case get_center (geometry p) of
                   Inl e \<Rightarrow> Inl e
                 | Inr c \<Rightarrow> Inr (p\<lparr>current_position := Some c\<rparr>)))"

text \<open>
  \<open>clone\<close>: \<open>new_geometry = self.geometry\<close> binds the same object; \<open>metadata.copy()\<close>
  and \<open>transform_history.copy()\<close> allocate a new dictionary and a new list with the
  same entries. The new part goes through \<open>__post_init__\<close>.
\<close>

definition clone ::
  "(ref \<Rightarrow> error + pos) \<Rightarrow> store \<Rightarrow> part_obj \<Rightarrow> string \<Rightarrow> error + (part_obj \<times> store)" where
  "clone get_center h self new_name =
     (let new_geometry = geometry self in
      case deref h (metadata self) of
        Some (PyDict d) \<Rightarrow>
          (let (m', h1) = alloc h (PyDict d) in
           case deref h1 (transform_history self) of
             Some (PyList l) \<Rightarrow>
               (let (t', h2) = alloc h1 (PyList l) in
                case post_init get_center
                       \<lparr>name = new_name, geometry = new_geometry, metadata = m',
                        transform_history = t', current_position = current_position self,
                        backend = backend self\<rparr> of
                  Inl e \<Rightarrow> Inl e
                | Inr p \<Rightarrow> Inr (p, h2))
           | _ \<Rightarrow> Inl (AttributeError ''transform_history has no list copy''))
      | _ \<Rightarrow> Inl (AttributeError ''metadata has no dict copy''))"

text \<open>A part with a red box as geometry, in a store of three objects.\<close>

definition store0 :: store where
  "store0 = [PyGeometry 42, PyDict [(''color'', YStr ''red'')], PyList []]"

definition part0 :: part_obj where
  "part0 = \<lparr>name = ''original'', geometry = 0, metadata = 1, transform_history = 2,
     current_position = Some (0, 0, 0), backend = None\<rparr>"

section \<open>Python strings and numbers\<close>

definition quoted :: "string \<Rightarrow> string" where
  "quoted s = [CHR 0x27] @ s @ [CHR 0x27]"

definition newline :: char where
  "newline = CHR 0x0A"



definition is_digit :: "char \<Rightarrow> bool" where
  "is_digit c = (CHR ''0'' \<le> c \<and> c \<le> CHR ''9'')"

definition digit_value :: "char \<Rightarrow> int" where
  "digit_value c = int (of_char c) - 48"

definition digits_value :: "string \<Rightarrow> int" where
  "digits_value ds = foldl (\<lambda>a c. 10 * a + digit_value c) 0 ds"

definition startswith :: "string \<Rightarrow> string \<Rightarrow> bool" where
  "startswith s p = (take (length p) s = p)"

definition endswith :: "string \<Rightarrow> string \<Rightarrow> bool" where
  "endswith s p = (length p \<le> length s \<and> drop (length s - length p) s = p)"

text \<open>
  The digits of a decimal literal accepted by \<open>int()\<close>: digits, with single
  underscores allowed between digits.
\<close>

fun int_literal_ok :: "string \<Rightarrow> bool" where
  "int_literal_ok [] = False"
| "int_literal_ok [c] = is_digit c"
| "int_literal_ok (c # d # cs) =
     (is_digit c \<and> (if d = CHR ''_'' then int_literal_ok cs else int_literal_ok (d # cs)))"

text \<open>
  The white space that \<open>int()\<close> skips around a number. It is narrower than
  \<open>str.isspace\<close>: of the characters below 127 only the white space of C (tab, line
  feed, vertical tab, form feed, carriage return, space) is skipped, so the
  separators \<open>0x1C\<close> to \<open>0x1F\<close> are not; the white space above 127 is turned into a
  space first and so is skipped.
\<close>

definition is_int_space :: "char \<Rightarrow> bool" where
  "is_int_space c = (c \<in> set [CHR 0x09, CHR 0x0A, CHR 0x0B, CHR 0x0C, CHR 0x0D, CHR 0x20,
                                CHR 0x85, CHR 0xA0])"

definition int_strip :: "string \<Rightarrow> string" where
  "int_strip s = rev (dropWhile is_int_space (rev (dropWhile is_int_space s)))"

text \<open>
  \<open>int(s)\<close> for a string: surrounding white space is dropped, then an optional sign
  and a decimal literal must remain. \<open>None\<close> stands for the \<open>ValueError\<close>. The
  interpreter refuses a literal of more than \<open>maxd\<close> digits (\<open>sys.get_int_max_str_digits()\<close>,
  4300 unless configured; 0 switches the limit off, and interpreters without the
  limit behave as with 0).
\<close>

definition py_int :: "nat \<Rightarrow> string \<Rightarrow> int option" where
  "py_int maxd s =
     (case int_strip s of
        [] \<Rightarrow> None
      | c # cs \<Rightarrow>
          (let body = (if c = CHR ''+'' \<or> c = CHR ''-'' then cs else c # cs) in
           if int_literal_ok body \<and> \<not> (0 < maxd \<and> maxd < length (filter is_digit body))
           then Some ((if c = CHR ''-'' then - 1 else 1) * digits_value (filter (\<lambda>x. x \<noteq> CHR ''_'') body))
           else None))"

text \<open>\<open>str(n)\<close> for a natural number.\<close>

fun str_nat :: "nat \<Rightarrow> string" where
  "str_nat n = (if n < 10 then [char_of (48 + n)] else str_nat (n div 10) @ [char_of (48 + n mod 10)])"

declare str_nat.simps [simp del]

text \<open>\<open>type(v).__name__\<close>.\<close>

fun type_name :: "yaml \<Rightarrow> string" where
  "type_name YNull = ''NoneType''"
| "type_name (YBool _) = ''bool''"
| "type_name (YInt _) = ''int''"
| "type_name (YStr _) = ''str''"
| "type_name (YList _) = ''list''"
| "type_name (YDict _) = ''dict''"

text \<open>The text of an exception, \<open>str(e)\<close>.\<close>

fun err_str :: "error \<Rightarrow> string" where
  "err_str (ValueError m) = m"
| "err_str (KeyError m) = m"
| "err_str (TypeError m) = m"
| "err_str (AttributeError m) = m"
| "err_str (IndexError m) = m"
| "err_str (GraphBuilderError m) = m"
| "err_str (BooleanBuilderError m) = m"
| "err_str (ParameterResolutionError m) = m"

text \<open>
  Formatting a value inside an f-string. A string formats as itself; the text of
  any other value is produced by Python's \<open>str\<close>, which is passed in as \<open>fmt\<close>.
\<close>

definition py_format :: "(yaml \<Rightarrow> string) \<Rightarrow> yaml \<Rightarrow> string" where
  "py_format fmt v = (case v of YStr s \<Rightarrow> s | _ \<Rightarrow> fmt v)"

text \<open>\<open>', '.join(xs)\<close>.\<close>

fun join_comma :: "string list \<Rightarrow> string" where
  "join_comma [] = []"
| "join_comma [x] = x"
| "join_comma (x # y # ys) = x @ '', '' @ join_comma (y # ys)"

subsection \<open>The part registry\<close>

text \<open>
  In the builders a part is used through its contents. The registry is the
  dictionary \<open>_parts\<close>, in insertion order.
\<close>

type_synonym 'g part_val = "('g, (string \<times> yaml) list, yaml list) Part"

type_synonym 'g registry = "(string \<times> 'g part_val) list"

definition registry_exists :: "'g registry \<Rightarrow> string \<Rightarrow> bool" where
  "registry_exists reg n = (n \<in> fst ` set reg)"

definition registry_list_parts :: "'g registry \<Rightarrow> string list" where
  "registry_list_parts reg = map fst reg"

definition registry_add :: "'g registry \<Rightarrow> 'g part_val \<Rightarrow> error + 'g registry" where
  "registry_add reg part =
     (if registry_exists reg (name part)
      then Inl (ValueError (''Part '' @ quoted (name part) @ '' already exists in registry''))
      else Inr (AList.update (name part) part reg))"

definition registry_get :: "'g registry \<Rightarrow> string \<Rightarrow> error + 'g part_val" where
  "registry_get reg n =
     (case map_of reg n of
        None \<Rightarrow> Inl (KeyError (''Part '' @ quoted n @ '' not found.'' @ [newline]
                       @ ''Available parts: '' @ join_comma (registry_list_parts reg)))
      | Some p \<Rightarrow> Inr p)"

text \<open>
  \<open>registry.exists(v)\<close> for a value that need not be a string: a list or a
  dictionary cannot be hashed, any other value that is not a string is not a key.
\<close>

definition registry_exists_value :: "'g registry \<Rightarrow> yaml \<Rightarrow> error + bool" where
  "registry_exists_value reg v =
     (case v of
        YStr n \<Rightarrow> Inr (registry_exists reg n)
      | YList _ \<Rightarrow> Inl (TypeError (''unhashable type: '' @ quoted ''list''))
      | YDict _ \<Rightarrow> Inl (TypeError (''unhashable type: '' @ quoted ''dict''))
      | _ \<Rightarrow> Inr False)"

section \<open>parser/metadata\_utils.py\<close>

definition PROPAGATING_METADATA :: "string set" where
  "PROPAGATING_METADATA = {''color'', ''material'', ''transparency'', ''texture'', ''finish''}"

definition OPERATION_SPECIFIC_METADATA :: "string set" where
  "OPERATION_SPECIFIC_METADATA = {''primitive_type'', ''source'', ''operation_type'', ''boolean_op'',
     ''pattern_type'', ''pattern_index'', ''grid_position'', ''angle''}"

text \<open>\<open>d.update(u)\<close>: the entries of \<open>u\<close> are stored one after the other.\<close>

definition dict_update :: "(string \<times> 'v) list \<Rightarrow> (string \<times> 'v) list \<Rightarrow> (string \<times> 'v) list" where
  "dict_update d u = foldl (\<lambda>acc kv. AList.update (fst kv) (snd kv) acc) d u"

text \<open>
  \<open>copy_propagating_metadata\<close>. The loop runs over the set
  \<open>PROPAGATING_METADATA\<close>, whose iteration order Python does not fix; the order is
  the list \<open>keys\<close>. An empty or missing source or override dictionary is skipped.
\<close>

definition copy_propagating_metadata ::
  "string list \<Rightarrow> (string \<times> 'v) list option \<Rightarrow> (string \<times> 'v) list
     \<Rightarrow> (string \<times> 'v) list option \<Rightarrow> (string \<times> 'v) list" where
  "copy_propagating_metadata keys source_metadata target_metadata overrides =
     (let result = target_metadata;
          result = (case source_metadata of
                      None \<Rightarrow> result
                    | Some src \<Rightarrow>
                        if src = [] then result
                        else foldl (\<lambda>acc key. case map_of src key of
                                                  None \<Rightarrow> acc
                                                | Some v \<Rightarrow> AList.update key v acc) result keys);
          result = (case overrides of
                      None \<Rightarrow> result
                    | Some ov \<Rightarrow> if ov = [] then result else dict_update result ov)
      in result)"

section \<open>parser/boolean\_builder.py\<close>

text \<open>
  What the builder is given from outside this file: the parameter resolver
  injected into it, Python's \<open>str\<close> on values, the boolean methods of the geometry
  objects, the centre of a geometry (used when the result part is constructed),
  the iteration order of \<open>PROPAGATING_METADATA\<close>, and the interpreter's limit on
  the digits of an integer literal.
\<close>

record 'g builder_env =
  resolver_resolve :: "(string \<times> yaml) list \<Rightarrow> error + (string \<times> yaml) list"
  py_str :: "yaml \<Rightarrow> string"
  geom_union :: "'g \<Rightarrow> 'g \<Rightarrow> error + 'g"
  geom_cut :: "'g \<Rightarrow> 'g \<Rightarrow> error + 'g"
  geom_intersect :: "'g \<Rightarrow> 'g \<Rightarrow> error + 'g"
  geom_center :: "'g \<Rightarrow> error + pos"
  propagating_order :: "string list"
  int_max_str_digits :: nat

text \<open>
  The key of \<open>_find_pattern_matches\<close>: \<open>(0, int(suffix))\<close> when the rest of the name
  after the prefix is accepted by \<open>int\<close>, \<open>(1, suffix)\<close> otherwise. The two shapes of
  tuple are embedded in one triple, compared lexicographically as Python compares
  the tuples; \<open>sorted\<close> is stable, as the insertion sort \<open>sort_key\<close> is.
\<close>

definition pattern_sort_key :: "nat \<Rightarrow> string \<Rightarrow> string \<Rightarrow> nat \<times> int \<times> string" where
  "pattern_sort_key maxd prefix nm =
     (let suffix = drop (length prefix) nm in
      case py_int maxd suffix of
        Some n \<Rightarrow> (0, n, [])
      | None \<Rightarrow> (1, 0, suffix))"

definition find_pattern_matches :: "nat \<Rightarrow> 'g registry \<Rightarrow> string \<Rightarrow> string list" where
  "find_pattern_matches maxd reg prefix =
     (let all_parts = registry_list_parts reg;
          matches = filter (\<lambda>p. startswith p prefix) all_parts
      in sort_key (pattern_sort_key maxd prefix) matches)"

definition available_parts :: "'g registry \<Rightarrow> string" where
  "available_parts reg = ''Available parts: '' @ join_comma (registry_list_parts reg)"

text \<open>
  The regular expression \<open>^(.+?)\[(.+?)\]$\<close> of \<open>_expand_range_spec\<close>. Both groups
  are lazy, take at least one character and no line break; \<open>$\<close> also matches before
  a final line break. \<open>find_bracket_body\<close> looks for the shortest second group,
  \<open>split_range_spec\<close> for the shortest first group that leaves one.
\<close>

fun find_bracket_body :: "string \<Rightarrow> string \<Rightarrow> string option" where
  "find_bracket_body b [] = None"
| "find_bracket_body b (c # cs) =
     (if b \<noteq> [] \<and> c = CHR '']'' \<and> (cs = [] \<or> cs = [newline]) then Some b
      else if c = newline then None
      else find_bracket_body (b @ [c]) cs)"

fun split_range_spec :: "string \<Rightarrow> string \<Rightarrow> (string \<times> string) option" where
  "split_range_spec a [] = None"
| "split_range_spec a (c # cs) =
     (if a \<noteq> [] \<and> c = CHR ''[''
      then (case find_bracket_body [] cs of
              Some b \<Rightarrow> Some (a, b)
            | None \<Rightarrow> split_range_spec (a @ [c]) cs)
      else if c = newline then None
      else split_range_spec (a @ [c]) cs)"

text \<open>The regular expression \<open>^(\d+)\.\.(\d+)$\<close> on a string without line break.\<close>

definition parse_numeric_range :: "string \<Rightarrow> (string \<times> string) option" where
  "parse_numeric_range s =
     (let d1 = takeWhile is_digit s; r = dropWhile is_digit s in
      case r of
        c1 # c2 # d2 \<Rightarrow>
          if d1 \<noteq> [] \<and> c1 = CHR ''.'' \<and> c2 = CHR ''.'' \<and> d2 \<noteq> [] \<and> list_all is_digit d2
          then Some (d1, d2)
          else None
      | _ \<Rightarrow> None)"

text \<open>\<open>int\<close> of a group of digits of the range; it raises when the digits exceed the limit.\<close>

definition int_of_digits :: "nat \<Rightarrow> string \<Rightarrow> error + nat" where
  "int_of_digits maxd ds =
     (case py_int maxd ds of
        None \<Rightarrow> Inl (ValueError ''Exceeds the limit for integer string conversion'')
      | Some n \<Rightarrow> Inr (nat n))"

fun range_part_names :: "'g registry \<Rightarrow> string \<Rightarrow> string \<Rightarrow> nat list \<Rightarrow> error + string list" where
  "range_part_names reg range_spec base_name [] = Inr []"
| "range_part_names reg range_spec base_name (i # rest) =
     (let part_name = base_name @ ''_'' @ str_nat i in
      if \<not> registry_exists reg part_name
      then Inl (BooleanBuilderError (''Range '' @ quoted range_spec @ '' references non-existent part ''
                  @ quoted part_name @ ''. '' @ available_parts reg))
      else (case range_part_names reg range_spec base_name rest of
              Inl e \<Rightarrow> Inl e
            | Inr ns \<Rightarrow> Inr (part_name # ns)))"

definition expand_range_spec :: "nat \<Rightarrow> 'g registry \<Rightarrow> yaml \<Rightarrow> error + string list" where
  "expand_range_spec maxd reg rs =
     (case rs of
        YStr range_spec \<Rightarrow>
          (case split_range_spec [] range_spec of
             None \<Rightarrow> Inl (BooleanBuilderError (''Invalid range syntax: '' @ quoted range_spec
                       @ ''. Expected '' @ quoted ''name[start..end]'' @ '' or '' @ quoted ''name[*]''))
           | Some (base_name, range_part) \<Rightarrow>
               if range_part = ''*''
               then (let matches = find_pattern_matches maxd reg (base_name @ ''_'') in
                     if matches = []
                     then Inl (BooleanBuilderError (''Range '' @ quoted range_spec
                            @ '' matched no parts. '' @ available_parts reg))
                     else Inr matches)
               else (case parse_numeric_range range_part of
                       None \<Rightarrow> Inl (BooleanBuilderError (''Invalid range format: '' @ quoted range_part
                                 @ ''. Expected '' @ quoted ''start..end'' @ '' (e.g., '' @ quoted ''0..5''
                                 @ '') or '' @ quoted ''*''))
                     | Some (d1, d2) \<Rightarrow>
                         (case int_of_digits maxd d1 of
                            Inl e \<Rightarrow> Inl e
                          | Inr start \<Rightarrow>
                              (case int_of_digits maxd d2 of
                                 Inl e \<Rightarrow> Inl e
                               | Inr stop \<Rightarrow>
                                   if start > stop
                                   then Inl (BooleanBuilderError (''Invalid range: start ('' @ str_nat start
                                          @ '') > end ('' @ str_nat stop @ '')''))
                                   else range_part_names reg range_spec base_name [start..<stop + 1]))))
      | _ \<Rightarrow> Inl (TypeError ''expected string or bytes-like object''))"

text \<open>One item of a part list, as the body of the loop of \<open>_expand_part_list\<close>.\<close>

definition expand_item :: "'g builder_env \<Rightarrow> 'g registry \<Rightarrow> yaml \<Rightarrow> error + string list" where
  "expand_item env reg item =
     (case item of
        YStr s \<Rightarrow>
          if CHR ''*'' \<in> set s
          then (let pattern_prefix = filter (\<lambda>c. c \<noteq> CHR ''*'') s;
                    matches = find_pattern_matches (int_max_str_digits env) reg pattern_prefix
                in if matches = []
                   then Inl (BooleanBuilderError (''Pattern '' @ quoted s @ '' matched no parts. ''
                          @ available_parts reg))
                   else Inr matches)
          else Inr [s]
      | YDict d \<Rightarrow>
          (case map_of d ''pattern'' of
             Some pattern_name \<Rightarrow>
               (let matches = find_pattern_matches (int_max_str_digits env) reg
                                (py_format (py_str env) pattern_name @ ''_'') in
                if matches = []
                then Inl (BooleanBuilderError (''Pattern '' @ quoted (py_format (py_str env) pattern_name)
                       @ '' matched no parts. '' @ available_parts reg))
                else Inr matches)
           | None \<Rightarrow>
               (case map_of d ''range'' of
                  Some range_spec \<Rightarrow> expand_range_spec (int_max_str_digits env) reg range_spec
                | None \<Rightarrow> Inl (BooleanBuilderError (''Invalid pattern dict: '' @ py_str env item
                            @ ''. Expected '' @ quoted ''pattern'' @ '' or '' @ quoted ''range'' @ '' key''))))
      | _ \<Rightarrow> Inl (BooleanBuilderError (''Invalid part list item type: '' @ type_name item
               @ ''. Expected str or dict'')))"

fun expand_part_list :: "'g builder_env \<Rightarrow> 'g registry \<Rightarrow> yaml list \<Rightarrow> error + string list" where
  "expand_part_list env reg [] = Inr []"
| "expand_part_list env reg (item # rest) =
     (case expand_item env reg item of
        Inl e \<Rightarrow> Inl e
      | Inr names \<Rightarrow>
          (case expand_part_list env reg rest of
             Inl e \<Rightarrow> Inl e
           | Inr others \<Rightarrow> Inr (names @ others)))"

text \<open>
  The loops of \<open>_execute_union\<close> and \<open>_execute_intersection\<close> that fetch the input
  parts; \<open>label\<close> is the word \<open>Union\<close> or \<open>Intersection\<close> of the message.
\<close>

fun retrieve_parts :: "string \<Rightarrow> 'g registry \<Rightarrow> string \<Rightarrow> string list \<Rightarrow> error + 'g part_val list" where
  "retrieve_parts label reg nm [] = Inr []"
| "retrieve_parts label reg nm (input_name # rest) =
     (if \<not> registry_exists reg input_name
      then Inl (BooleanBuilderError (label @ '' operation '' @ quoted nm @ '' input part ''
                  @ quoted input_name @ '' not found. '' @ available_parts reg))
      else (case registry_get reg input_name of
              Inl e \<Rightarrow> Inl e
            | Inr p \<Rightarrow>
                (case retrieve_parts label reg nm rest of
                   Inl e \<Rightarrow> Inl e
                 | Inr ps \<Rightarrow> Inr (p # ps))))"

text \<open>
  The loops that combine the geometries; an exception of the geometry method is
  re-raised as a \<open>BooleanBuilderError\<close> whose text starts with \<open>failure\<close> and names the
  part.
\<close>

fun combine_parts ::
  "('g \<Rightarrow> 'g \<Rightarrow> error + 'g) \<Rightarrow> string \<Rightarrow> 'g \<Rightarrow> 'g part_val list \<Rightarrow> error + 'g" where
  "combine_parts f failure result [] = Inr result"
| "combine_parts f failure result (part # rest) =
     (case f result (geometry part) of
        Inl e \<Rightarrow> Inl (BooleanBuilderError (failure @ quoted (name part) @ '': '' @ err_str e))
      | Inr r \<Rightarrow> combine_parts f failure r rest)"

definition execute_union :: "'g builder_env \<Rightarrow> 'g registry \<Rightarrow> string \<Rightarrow> (string \<times> yaml) list \<Rightarrow> error + 'g" where
  "execute_union env reg nm spc =
     (case map_of spc ''inputs'' of
        None \<Rightarrow> Inl (BooleanBuilderError (''Union operation '' @ quoted nm @ '' missing ''
                  @ quoted ''inputs'' @ '' field''))
      | Some (YList inputs0) \<Rightarrow>
          (case expand_part_list env reg inputs0 of
             Inl e \<Rightarrow> Inl e
           | Inr inputs \<Rightarrow>
               if length inputs < 2
               then Inl (BooleanBuilderError (''Union operation '' @ quoted nm
                      @ '' requires at least 2 inputs, got '' @ str_nat (length inputs)))
               else (case retrieve_parts ''Union'' reg nm inputs of
                       Inl e \<Rightarrow> Inl e
                     | Inr [] \<Rightarrow> Inl (IndexError ''list index out of range'')
                     | Inr (p # ps) \<Rightarrow>
                         combine_parts (geom_union env)
                           (''Union operation '' @ quoted nm @ '' failed combining part '')
                           (geometry p) ps))
      | Some v \<Rightarrow> Inl (BooleanBuilderError (''Union operation '' @ quoted nm
                    @ '' inputs must be a list, got: '' @ type_name v)))"

definition execute_intersection :: "'g builder_env \<Rightarrow> 'g registry \<Rightarrow> string \<Rightarrow> (string \<times> yaml) list \<Rightarrow> error + 'g" where
  "execute_intersection env reg nm spc =
     (case map_of spc ''inputs'' of
        None \<Rightarrow> Inl (BooleanBuilderError (''Intersection operation '' @ quoted nm @ '' missing ''
                  @ quoted ''inputs'' @ '' field''))
      | Some (YList inputs0) \<Rightarrow>
          (case expand_part_list env reg inputs0 of
             Inl e \<Rightarrow> Inl e
           | Inr inputs \<Rightarrow>
               if length inputs < 2
               then Inl (BooleanBuilderError (''Intersection operation '' @ quoted nm
                      @ '' requires at least 2 inputs, got '' @ str_nat (length inputs)))
               else (case retrieve_parts ''Intersection'' reg nm inputs of
                       Inl e \<Rightarrow> Inl e
                     | Inr [] \<Rightarrow> Inl (IndexError ''list index out of range'')
                     | Inr (p # ps) \<Rightarrow>
                         combine_parts (geom_intersect env)
                           (''Intersection operation '' @ quoted nm @ '' failed with part '')
                           (geometry p) ps))
      | Some v \<Rightarrow> Inl (BooleanBuilderError (''Intersection operation '' @ quoted nm
                    @ '' inputs must be a list, got: '' @ type_name v)))"

text \<open>The subtraction loop of \<open>_execute_difference\<close>.\<close>

fun subtract_parts ::
  "'g builder_env \<Rightarrow> 'g registry \<Rightarrow> string \<Rightarrow> 'g \<Rightarrow> string list \<Rightarrow> error + 'g" where
  "subtract_parts env reg nm result [] = Inr result"
| "subtract_parts env reg nm result (subtract_name # rest) =
     (if \<not> registry_exists reg subtract_name
      then Inl (BooleanBuilderError (''Difference operation '' @ quoted nm @ '' subtract part ''
                  @ quoted subtract_name @ '' not found. '' @ available_parts reg))
      else (case registry_get reg subtract_name of
              Inl e \<Rightarrow> Inl e
            | Inr subtract_part \<Rightarrow>
                (case geom_cut env result (geometry subtract_part) of
                   Inl e \<Rightarrow> Inl (BooleanBuilderError (''Difference operation '' @ quoted nm
                              @ '' failed subtracting part '' @ quoted subtract_name @ '': '' @ err_str e))
                 | Inr r \<Rightarrow> subtract_parts env reg nm r rest)))"

definition execute_difference :: "'g builder_env \<Rightarrow> 'g registry \<Rightarrow> string \<Rightarrow> (string \<times> yaml) list \<Rightarrow> error + 'g" where
  "execute_difference env reg nm spc =
     (case map_of spc ''base'' of
        None \<Rightarrow> Inl (BooleanBuilderError (''Difference operation '' @ quoted nm @ '' missing ''
                  @ quoted ''base'' @ '' field''))
      | Some base_name \<Rightarrow>
          (case map_of spc ''subtract'' of
             None \<Rightarrow> Inl (BooleanBuilderError (''Difference operation '' @ quoted nm @ '' missing ''
                       @ quoted ''subtract'' @ '' field''))
           | Some (YList subtract0) \<Rightarrow>
               (case expand_part_list env reg subtract0 of
                  Inl e \<Rightarrow> Inl e
                | Inr subtract_list \<Rightarrow>
                    if length subtract_list = 0
                    then Inl (BooleanBuilderError (''Difference operation '' @ quoted nm
                           @ '' subtract list cannot be empty''))
                    else (case registry_exists_value reg base_name of
                            Inl e \<Rightarrow> Inl e
                          | Inr False \<Rightarrow>
                              Inl (BooleanBuilderError (''Difference operation '' @ quoted nm
                                @ '' base part '' @ quoted (py_format (py_str env) base_name)
                                @ '' not found. '' @ available_parts reg))
                          | Inr True \<Rightarrow>
                              (case base_name of
                                 YStr b \<Rightarrow>
                                   (case registry_get reg b of
                                      Inl e \<Rightarrow> Inl e
                                    | Inr base_part \<Rightarrow>
                                        subtract_parts env reg nm (geometry base_part) subtract_list)
                               | _ \<Rightarrow> Inl (KeyError (py_format (py_str env) base_name)))))
           | Some v \<Rightarrow> Inl (BooleanBuilderError (''Difference operation '' @ quoted nm
                         @ '' subtract must be a list, got: '' @ type_name v))))"

text \<open>
  The part whose metadata is inherited: the \<open>base\<close> entry for a difference or an
  intersection, the first entry of \<open>inputs\<close> for a union when it is a plain name.
  It is looked up after the geometry has been computed, so for a union \<open>inputs\<close>
  is a list here.
\<close>

definition metadata_source ::
  "'g registry \<Rightarrow> yaml \<Rightarrow> (string \<times> yaml) list \<Rightarrow> error + 'g part_val option" where
  "metadata_source reg operation resolved_spec =
     (if operation = YStr ''difference'' \<or> operation = YStr ''intersection''
      then (case map_of resolved_spec ''base'' of
              None \<Rightarrow> Inr None
            | Some base_name \<Rightarrow>
                (case registry_exists_value reg base_name of
                   Inl e \<Rightarrow> Inl e
                 | Inr False \<Rightarrow> Inr None
                 | Inr True \<Rightarrow>
                     (case base_name of
                        YStr b \<Rightarrow> (case registry_get reg b of Inl e \<Rightarrow> Inl e | Inr p \<Rightarrow> Inr (Some p))
                      | _ \<Rightarrow> Inr None)))
      else if operation = YStr ''union''
      then (case map_of resolved_spec ''inputs'' of
              Some (YList (first_input # _)) \<Rightarrow>
                (case first_input of
                   YStr s \<Rightarrow>
                     if CHR ''*'' \<notin> set s
                     then (if registry_exists reg s
                           then (case registry_get reg s of Inl e \<Rightarrow> Inl e | Inr p \<Rightarrow> Inr (Some p))
                           else Inr None)
                     else Inr None
                 | _ \<Rightarrow> Inr None)
            | _ \<Rightarrow> Inr None)
      else Inr None)"

text \<open>The body of the \<open>try\<close> block of \<open>execute_boolean_operation\<close>.\<close>

definition boolean_operation_body ::
  "'g builder_env \<Rightarrow> 'g registry \<Rightarrow> string \<Rightarrow> yaml \<Rightarrow> (string \<times> yaml) list \<Rightarrow> error + 'g registry" where
  "boolean_operation_body env reg nm operation resolved_spec =
     (case (if operation = YStr ''union'' then execute_union env reg nm resolved_spec
            else if operation = YStr ''difference'' then execute_difference env reg nm resolved_spec
            else if operation = YStr ''intersection'' then execute_intersection env reg nm resolved_spec
            else Inl (BooleanBuilderError (''Unknown boolean operation ''
                   @ quoted (py_format (py_str env) operation)
                   @ ''. Supported: union, difference, intersection''))) of
        Inl e \<Rightarrow> Inl e
      | Inr geom \<Rightarrow>
          (case metadata_source reg operation resolved_spec of
             Inl e \<Rightarrow> Inl e
           | Inr source_part \<Rightarrow>
               (let md = copy_propagating_metadata (propagating_order env)
                           (map_option metadata source_part)
                           [(''operation_type'', YStr ''boolean''), (''boolean_op'', operation)]
                           None
                in case post_init (geom_center env)
                          \<lparr>name = nm, geometry = geom, metadata = md, transform_history = [],
                           current_position = None, backend = None\<rparr> of
                     Inl e \<Rightarrow> Inl e
                   | Inr result_part \<Rightarrow> registry_add reg result_part)))"

text \<open>
  \<open>execute_boolean_operation\<close>: the resolver runs outside the \<open>try\<close>; inside it a
  \<open>BooleanBuilderError\<close> passes through and any other exception is wrapped.
\<close>

definition execute_boolean_operation ::
  "'g builder_env \<Rightarrow> 'g registry \<Rightarrow> string \<Rightarrow> (string \<times> yaml) list \<Rightarrow> error + 'g registry" where
  "execute_boolean_operation env reg nm spc =
     (case resolver_resolve env spc of
        Inl e \<Rightarrow> Inl e
      | Inr resolved_spec \<Rightarrow>
          (case map_of resolved_spec ''operation'' of
             None \<Rightarrow> Inl (BooleanBuilderError (''Boolean operation '' @ quoted nm @ '' missing ''
                       @ quoted ''operation'' @ '' field''))
           | Some operation \<Rightarrow>
               (case boolean_operation_body env reg nm operation resolved_spec of
                  Inl (BooleanBuilderError m) \<Rightarrow> Inl (BooleanBuilderError m)
                | Inl e \<Rightarrow> Inl (BooleanBuilderError (''Boolean operation ''
                            @ quoted (py_format (py_str env) operation) @ '' failed for '' @ quoted nm
                            @ '': '' @ err_str e))
                | Inr reg' \<Rightarrow> Inr reg')))"

subsection \<open>The specification of metadata propagation\<close>

text \<open>
  The metadata of a part produced by an operation, in the words of the
  specification: the operation-specific entries, united with the propagating keys
  of the source part, with the explicit overrides on top.
\<close>

definition spec_metadata ::
  "(string \<rightharpoonup> 'v) \<Rightarrow> (string \<rightharpoonup> 'v) option \<Rightarrow> (string \<rightharpoonup> 'v) \<Rightarrow> (string \<rightharpoonup> 'v)" where
  "spec_metadata operation_specific source overrides =
     (operation_specific ++ (case source of None \<Rightarrow> Map.empty | Some m \<Rightarrow> m |` PROPAGATING_METADATA))
       ++ overrides"

text \<open>The two entries that the boolean builder writes for the operation itself.\<close>

definition operation_entries :: "yaml \<Rightarrow> (string \<rightharpoonup> yaml)" where
  "operation_entries operation =
     map_of [(''operation_type'', YStr ''boolean''), (''boolean_op'', operation)]"

text \<open>
  The wildcard entries of a part list in the words of the specification: a
  string with \<open>*\<close>, the dictionary \<open>{pattern: name}\<close> and the dictionary
  \<open>{range: "name[*]"}\<close>, both equivalent to \<open>name_*\<close>. A numeric range
  \<open>{range: "name[a..b]"}\<close> and a plain name are not wildcards.
\<close>

definition is_wildcard_entry :: "yaml \<Rightarrow> bool" where
  "is_wildcard_entry item =
     (case item of
        YStr s \<Rightarrow> CHR ''*'' \<in> set s
      | YDict d \<Rightarrow>
          (case map_of d ''pattern'' of
             Some _ \<Rightarrow> True
           | None \<Rightarrow>
               (case map_of d ''range'' of
                  Some (YStr r) \<Rightarrow>
                    (case split_range_spec [] r of Some (_, range_part) \<Rightarrow> range_part = ''*'' | None \<Rightarrow> False)
                | _ \<Rightarrow> False))
      | _ \<Rightarrow> False)"

text \<open>
  The source part of a union in the words of the specification: the first
  input, unless the first input is a wildcard. The first input is the first part
  that the first entry of \<open>inputs\<close> denotes.
\<close>

definition claimed_union_source ::
  "'g builder_env \<Rightarrow> 'g registry \<Rightarrow> yaml list \<Rightarrow> 'g part_val option" where
  "claimed_union_source env reg inputs =
     (case inputs of
        [] \<Rightarrow> None
      | first # _ \<Rightarrow>
          if is_wildcard_entry first then None
          else (case expand_part_list env reg [first] of
                  Inr (n # _) \<Rightarrow> map_of reg n
                | _ \<Rightarrow> None))"

subsection \<open>Concrete inputs\<close>

text \<open>
  Geometries are numbers here; union adds, cut subtracts, intersection takes the
  minimum. The resolver finds nothing to resolve.
\<close>

definition env0 :: "nat builder_env" where
  "env0 = \<lparr>resolver_resolve = Inr, py_str = (\<lambda>_. ''?''),
     geom_union = (\<lambda>a b. Inr (a + b)), geom_cut = (\<lambda>a b. Inr (a - b)),
     geom_intersect = (\<lambda>a b. Inr (min a b)), geom_center = (\<lambda>_. Inr (0, 0, 0)),
     propagating_order = [''finish'', ''color'', ''texture'', ''material'', ''transparency''],
     int_max_str_digits = 4300\<rparr>"

definition plain_part :: "string \<Rightarrow> nat \<Rightarrow> (string \<times> yaml) list \<Rightarrow> nat part_val" where
  "plain_part n g md = \<lparr>name = n, geometry = g, metadata = md, transform_history = [],
     current_position = Some (0, 0, 0), backend = None\<rparr>"

definition reg_plate :: "nat registry" where
  "reg_plate = [(''plate'', plain_part ''plate'' 10 [(''primitive_type'', YStr ''box''), (''color'', YStr ''red'')]),
                (''hole'', plain_part ''hole'' 3 [(''color'', YStr ''blue'')])]"

definition spec_cut :: "(string \<times> yaml) list" where
  "spec_cut = [(''operation'', YStr ''difference''), (''base'', YStr ''plate''),
               (''subtract'', YList [YStr ''hole''])]"

definition reg_holes :: "nat registry" where
  "reg_holes = map (\<lambda>n. (n, plain_part n 1 []))
     [''hole_3'', ''hole_10'', ''a_hole'', ''hole_b'', ''hole_1'', ''hole_a'', ''hole_2'']"

definition cut_part :: "nat part_val" where
  "cut_part = \<lparr>name = ''cut'', geometry = 7,
        metadata = [(''operation_type'', YStr ''boolean''), (''boolean_op'', YStr ''difference''),
                    (''color'', YStr ''red'')],
        transform_history = [], current_position = Some (0, 0, 0), backend = None\<rparr>"

text \<open>A union whose first input is a numeric range of two red parts.\<close>

definition reg_red :: "nat registry" where
  "reg_red = [(''hole_1'', plain_part ''hole_1'' 1 [(''color'', YStr ''red'')]),
              (''hole_2'', plain_part ''hole_2'' 2 [(''color'', YStr ''red'')]),
              (''plate'', plain_part ''plate'' 10 [(''color'', YStr ''blue'')])]"

definition range_entry :: yaml where
  "range_entry = YDict [(''range'', YStr ''hole[1..2]'')]"

definition spec_join :: "(string \<times> yaml) list" where
  "spec_join = [(''operation'', YStr ''union''), (''inputs'', YList [range_entry, YStr ''plate''])]"

definition joined_part :: "nat part_val" where
  "joined_part = \<lparr>name = ''joined'', geometry = 13,
        metadata = [(''operation_type'', YStr ''boolean''), (''boolean_op'', YStr ''union'')],
        transform_history = [], current_position = Some (0, 0, 0), backend = None\<rparr>"

text \<open>A union of plain names, and an intersection written with its field \<open>inputs\<close>.\<close>

definition spec_plain_union :: "(string \<times> yaml) list" where
  "spec_plain_union = [(''operation'', YStr ''union''), (''inputs'', YList [YStr ''plate'', YStr ''hole''])]"

definition union_part :: "nat part_val" where
  "union_part = \<lparr>name = ''both'', geometry = 13,
        metadata = [(''operation_type'', YStr ''boolean''), (''boolean_op'', YStr ''union''),
                    (''color'', YStr ''red'')],
        transform_history = [], current_position = Some (0, 0, 0), backend = None\<rparr>"

definition spec_common :: "(string \<times> yaml) list" where
  "spec_common = [(''operation'', YStr ''intersection''), (''inputs'', YList [YStr ''plate'', YStr ''hole''])]"

definition common_part :: "nat part_val" where
  "common_part = \<lparr>name = ''common'', geometry = 3,
        metadata = [(''operation_type'', YStr ''boolean''), (''boolean_op'', YStr ''intersection'')],
        transform_history = [], current_position = Some (0, 0, 0), backend = None\<rparr>"

text \<open>
  The order of two names by their keys: a name whose remainder after the prefix
  is accepted by \<open>int\<close> comes before one whose remainder is not; two numeric
  remainders are in numeric order, two others in string order.
\<close>

definition remainder_order :: "nat \<Rightarrow> string \<Rightarrow> string \<Rightarrow> string \<Rightarrow> bool" where
  "remainder_order maxd p x y =
     (case py_int maxd (drop (length p) x) of
        Some a \<Rightarrow> (case py_int maxd (drop (length p) y) of Some b \<Rightarrow> a \<le> b | None \<Rightarrow> True)
      | None \<Rightarrow> (case py_int maxd (drop (length p) y) of Some b \<Rightarrow> False
                 | None \<Rightarrow> drop (length p) x \<le> drop (length p) y))"

section \<open>selector\_resolver.py\<close>




text \<open>
  \<open>SIMPLE_SELECTOR.match\<close> for \<open>^[><|#][XYZ]$\<close>; the \<open>$\<close> also matches before a final
  line break.
\<close>

definition SIMPLE_SELECTOR_match :: "string \<Rightarrow> bool" where
  "SIMPLE_SELECTOR_match s =
     (case s of
        c1 # c2 # rest \<Rightarrow>
          c1 \<in> set ''><|#'' \<and> c2 \<in> set ''XYZ'' \<and> (rest = [] \<or> rest = [newline])
      | _ \<Rightarrow> False)"






















text \<open>The twelve simple selectors, and a selector \<open>not s\<close> with its white space.\<close>

definition simple_selectors :: "string set" where
  "simple_selectors = set (concat (map (\<lambda>a. map (\<lambda>b. [a, b]) ''XYZ'') ''><|#''))"





section \<open>dag/graph\_builder.py\<close>

subsection \<open>JSON with sorted keys\<close>

definition str_int :: "int \<Rightarrow> string" where
  "str_int n = (if n < 0 then CHR ''-'' # str_nat (nat (- n)) else str_nat (nat n))"

definition hex_digit :: "nat \<Rightarrow> char" where
  "hex_digit n = ''0123456789abcdef'' ! (n mod 16)"

text \<open>
  The escapes of \<open>json.dumps\<close> with \<open>ensure_ascii\<close>: the quote, the backslash and
  every character outside the range from space to tilde.
\<close>

definition json_escape_char :: "char \<Rightarrow> string" where
  "json_escape_char c =
     (if c = CHR 0x22 then [CHR 0x5C, CHR 0x22]
      else if c = CHR 0x5C then [CHR 0x5C, CHR 0x5C]
      else if c = CHR 0x0A then [CHR 0x5C, CHR ''n'']
      else if c = CHR 0x0D then [CHR 0x5C, CHR ''r'']
      else if c = CHR 0x09 then [CHR 0x5C, CHR ''t'']
      else if c = CHR 0x08 then [CHR 0x5C, CHR ''b'']
      else if c = CHR 0x0C then [CHR 0x5C, CHR ''f'']
      else if CHR 0x20 \<le> c \<and> c \<le> CHR 0x7E then [c]
      else [CHR 0x5C, CHR ''u'', CHR ''0'', CHR ''0'',
            hex_digit (of_char c div 16), hex_digit (of_char c mod 16)])"

definition json_string :: "string \<Rightarrow> string" where
  "json_string s = [CHR 0x22] @ concat (map json_escape_char s) @ [CHR 0x22]"

text \<open>\<open>json.dumps(spec, sort_keys=True)\<close>: the items of a dictionary are sorted by key.\<close>

fun json_dumps :: "yaml \<Rightarrow> string" where
  "json_dumps YNull = ''null''"
| "json_dumps (YBool b) = (if b then ''true'' else ''false'')"
| "json_dumps (YInt n) = str_int n"
| "json_dumps (YStr s) = json_string s"
| "json_dumps (YList xs) = ''['' @ join_comma (map json_dumps xs) @ '']''"
| "json_dumps (YDict kvs) =
     ''{'' @ join_comma (map (\<lambda>kv. json_string (fst kv) @ '': '' @ json_dumps (snd kv)) (sort_key fst kvs))
       @ ''}''"

text \<open>
  What the builder takes from outside the repository: the hexadecimal SHA-256
  digest of \<open>hashlib\<close> and Python's \<open>str\<close> on values that are not strings.
\<close>

record graph_env =
  sha256_hexdigest :: "string \<Rightarrow> string"
  str_of :: "yaml \<Rightarrow> string"

definition hash_spec :: "graph_env \<Rightarrow> yaml \<Rightarrow> string" where
  "hash_spec env spc = take 16 (sha256_hexdigest env (json_dumps spc))"

subsection \<open>References to parameters\<close>

text \<open>
  \<open>PARAM_PATTERN.findall\<close> for \<open>\$\{([^}]+)\}\<close>: from the left, each \<open>${\<close> followed by
  at least one character other than \<open>}\<close> and then \<open>}\<close> gives the text between the
  braces; the search continues after the closing brace.
\<close>

function param_exprs :: "string \<Rightarrow> string list" where
  "param_exprs [] = []"
| "param_exprs [c] = []"
| "param_exprs (c # d # cs) =
     (if c = CHR ''$'' \<and> d = CHR ''{''
      then (let body = takeWhile (\<lambda>x. x \<noteq> CHR ''}'') cs;
                rest = dropWhile (\<lambda>x. x \<noteq> CHR ''}'') cs
            in if body \<noteq> [] \<and> rest \<noteq> [] then body # param_exprs (tl rest)
               else param_exprs (d # cs))
      else param_exprs (d # cs))"
  by pat_completeness auto
termination
proof (relation "measure length", goal_cases)
  case 1
  show ?case by simp
next
  case (2 c d cs body rest)
  have "length (tl (dropWhile (\<lambda>x. x \<noteq> CHR ''}'') cs)) \<le> length cs"
    using length_dropWhile_le [of "\<lambda>x. x \<noteq> CHR ''}''" cs] by simp
  with 2 show ?case by simp
qed simp_all

text \<open>
  The word characters of \<open>\b\<close> and \<open>\w\<close> below 256: letters, digits and the
  underscore, with the letters and digits of Latin-1.
\<close>

definition is_ident_start :: "char \<Rightarrow> bool" where
  "is_ident_start c = ((CHR ''a'' \<le> c \<and> c \<le> CHR ''z'') \<or> (CHR ''A'' \<le> c \<and> c \<le> CHR ''Z'') \<or> c = CHR ''_'')"

definition is_ident_char :: "char \<Rightarrow> bool" where
  "is_ident_char c = (is_ident_start c \<or> is_digit c)"

definition is_word_char :: "char \<Rightarrow> bool" where
  "is_word_char c =
     (is_ident_char c \<or> c \<in> set [CHR 0xAA, CHR 0xB2, CHR 0xB3, CHR 0xB5, CHR 0xB9, CHR 0xBA,
                                     CHR 0xBC, CHR 0xBD, CHR 0xBE]
      \<or> (CHR 0xC0 \<le> c \<and> c \<noteq> CHR 0xD7 \<and> c \<noteq> CHR 0xF7))"

fun word_runs :: "string \<Rightarrow> string \<Rightarrow> string list" where
  "word_runs acc [] = (if acc = [] then [] else [acc])"
| "word_runs acc (c # cs) =
     (if is_word_char c then word_runs (acc @ [c]) cs
      else (if acc = [] then [] else [acc]) @ word_runs [] cs)"

text \<open>
  \<open>re.findall(r'\b[a-zA-Z_][a-zA-Z0-9_]*\b', expr)\<close>: the maximal runs of word
  characters that start with a letter or underscore and hold only letters,
  digits and underscores of ASCII.
\<close>

definition identifiers :: "string \<Rightarrow> string list" where
  "identifiers expr =
     filter (\<lambda>w. (case w of [] \<Rightarrow> False | c # _ \<Rightarrow> is_ident_start c) \<and> list_all is_ident_char w)
       (word_runs [] expr)"

fun collect_refs :: "yaml \<Rightarrow> string list" where
  "collect_refs (YStr s) = concat (map identifiers (param_exprs s))"
| "collect_refs (YDict kvs) = concat (map (\<lambda>kv. collect_refs (snd kv)) kvs)"
| "collect_refs (YList xs) = concat (map collect_refs xs)"
| "collect_refs _ = []"

text \<open>
  \<open>_find_parameter_refs\<close> returns a set; the loops over it run in an order that
  Python does not fix. The model lists the set without repetition.
\<close>

definition find_parameter_refs :: "yaml \<Rightarrow> string list" where
  "find_parameter_refs obj = remdups (collect_refs obj)"

subsection \<open>The builder\<close>

text \<open>
  The state of a \<open>GraphBuilder\<close>: its graph and the names of the parameters seen.
\<close>

record GraphBuilder =
  builder_graph :: ModelGraph
  parameter_names :: "string set"

definition GraphBuilder_init :: GraphBuilder where
  "GraphBuilder_init = \<lparr>builder_graph = ModelGraph_init, parameter_names = {}\<rparr>"

text \<open>A \<open>for\<close> loop over the items of a dictionary whose body may raise.\<close>

fun for_items :: "('s \<Rightarrow> 'a \<Rightarrow> error + 's) \<Rightarrow> 's \<Rightarrow> 'a list \<Rightarrow> error + 's" where
  "for_items f s [] = Inr s"
| "for_items f s (x # xs) = (case f s x of Inl e \<Rightarrow> Inl e | Inr s' \<Rightarrow> for_items f s' xs)"

text \<open>
  \<open>yaml_data.get(key, {})\<close> followed by \<open>.items()\<close>: a missing section is empty, a
  section that is not a dictionary has no \<open>items\<close>.
\<close>

definition section_items :: "(string \<times> yaml) list \<Rightarrow> string \<Rightarrow> error + (string \<times> yaml) list" where
  "section_items yaml_data key =
     (case map_of yaml_data key of
        None \<Rightarrow> Inr []
      | Some (YDict d) \<Rightarrow> Inr d
      | Some v \<Rightarrow> Inl (AttributeError (quoted (type_name v) @ '' object has no attribute '' @ quoted ''items'')))"

definition store_node :: "GraphBuilder \<Rightarrow> error + GraphNode \<Rightarrow> error + GraphBuilder" where
  "store_node b made =
     (case made of
        Inl e \<Rightarrow> Inl e
      | Inr node \<Rightarrow>
          (case add_node (builder_graph b) node of
             Inl e \<Rightarrow> Inl e
           | Inr g \<Rightarrow> Inr (b\<lparr>builder_graph := g\<rparr>)))"

definition add_parameter_nodes :: "graph_env \<Rightarrow> GraphBuilder \<Rightarrow> (string \<times> yaml) list \<Rightarrow> error + GraphBuilder" where
  "add_parameter_nodes env =
     for_items (\<lambda>b (param_name, param_value).
       store_node (b\<lparr>parameter_names := insert param_name (parameter_names b)\<rparr>)
         (GraphNode_new (''parameter:'' @ param_name) PARAMETER param_name
            (YDict [(''value'', param_value)]) (Some (hash_spec env param_value)) False))"

definition add_sketch_nodes :: "graph_env \<Rightarrow> GraphBuilder \<Rightarrow> (string \<times> yaml) list \<Rightarrow> error + GraphBuilder" where
  "add_sketch_nodes env =
     for_items (\<lambda>b (sketch_name, sketch_spec).
       store_node b
         (GraphNode_new (''sketch:'' @ sketch_name) SKETCH sketch_name
            sketch_spec (Some (hash_spec env sketch_spec)) False))"

definition add_part_nodes :: "graph_env \<Rightarrow> GraphBuilder \<Rightarrow> (string \<times> yaml) list \<Rightarrow> error + GraphBuilder" where
  "add_part_nodes env =
     for_items (\<lambda>b (part_name, part_spec).
       store_node b
         (GraphNode_new (''part:'' @ part_name) PART part_name
            part_spec (Some (hash_spec env part_spec)) False))"

text \<open>\<open>op_spec.get(key, default)\<close>: only a dictionary has \<open>get\<close>.\<close>

definition spec_get :: "yaml \<Rightarrow> string \<Rightarrow> error + yaml option" where
  "spec_get spc key =
     (case spc of
        YDict d \<Rightarrow> Inr (map_of d key)
      | v \<Rightarrow> Inl (AttributeError (quoted (type_name v) @ '' object has no attribute '' @ quoted ''get'')))"

definition add_operation_nodes :: "graph_env \<Rightarrow> GraphBuilder \<Rightarrow> (string \<times> yaml) list \<Rightarrow> error + GraphBuilder" where
  "add_operation_nodes env =
     for_items (\<lambda>b (op_name, op_spec).
       case spec_get op_spec ''type'' of
         Inl e \<Rightarrow> Inl e
       | Inr ty \<Rightarrow>
           (let is_pat = (ty \<in> {Some (YStr ''pattern''), Some (YStr ''circular''),
                                  Some (YStr ''linear''), Some (YStr ''grid'')})
            in store_node b
                 (GraphNode_new (''operation:'' @ op_name) OPERATION op_name
                    op_spec (Some (hash_spec env op_spec)) is_pat)))"

definition add_reference_nodes :: "graph_env \<Rightarrow> GraphBuilder \<Rightarrow> (string \<times> yaml) list \<Rightarrow> error + GraphBuilder" where
  "add_reference_nodes env =
     for_items (\<lambda>b (ref_name, ref_spec).
       store_node b
         (GraphNode_new (''reference:'' @ ref_name) REFERENCE ref_name
            ref_spec (Some (hash_spec env ref_spec)) False))"

text \<open>\<open>self.graph.add_dependency\<close> on the builder's graph.\<close>

definition depend :: "GraphBuilder \<Rightarrow> string \<Rightarrow> string \<Rightarrow> error + GraphBuilder" where
  "depend b dependent_id dependency_id =
     (case add_dependency (builder_graph b) dependent_id dependency_id of
        Inl e \<Rightarrow> Inl e
      | Inr g \<Rightarrow> Inr (b\<lparr>builder_graph := g\<rparr>))"

text \<open>
  The loop \<open>for ref_param in refs\<close> that all five extraction methods share; only
  the one for parameters skips a reference of a parameter to itself, so \<open>skip\<close>
  is the parameter's own name there and nothing elsewhere.
\<close>

definition depend_on_parameters ::
  "GraphBuilder \<Rightarrow> string \<Rightarrow> string option \<Rightarrow> string list \<Rightarrow> error + GraphBuilder" where
  "depend_on_parameters b dependent_id skip refs =
     for_items (\<lambda>b ref_param.
       if ref_param \<in> parameter_names b \<and> Some ref_param \<noteq> skip
       then depend b dependent_id (''parameter:'' @ ref_param)
       else Inr b) b refs"

definition extract_parameter_dependencies :: "GraphBuilder \<Rightarrow> (string \<times> yaml) list \<Rightarrow> error + GraphBuilder" where
  "extract_parameter_dependencies =
     for_items (\<lambda>b (param_name, param_value).
       depend_on_parameters b (''parameter:'' @ param_name) (Some param_name)
         (find_parameter_refs param_value))"

definition extract_sketch_dependencies :: "GraphBuilder \<Rightarrow> (string \<times> yaml) list \<Rightarrow> error + GraphBuilder" where
  "extract_sketch_dependencies =
     for_items (\<lambda>b (sketch_name, sketch_spec).
       depend_on_parameters b (''sketch:'' @ sketch_name) None (find_parameter_refs sketch_spec))"

text \<open>
  \<open>key in spec\<close> followed by \<open>spec[key]\<close>, for a specification that need not be a
  dictionary: \<open>in\<close> is a substring test on a string, a membership test on a list
  and an error on a scalar, and indexing a string or a list by a string is an
  error.
\<close>

definition is_substring :: "string \<Rightarrow> string \<Rightarrow> bool" where
  "is_substring w s = list_ex (\<lambda>i. take (length w) (drop i s) = w) [0..<Suc (length s)]"

definition spec_lookup :: "yaml \<Rightarrow> string \<Rightarrow> error + yaml option" where
  "spec_lookup spc key =
     (case spc of
        YDict d \<Rightarrow> Inr (map_of d key)
      | YStr s \<Rightarrow> if is_substring key s
                  then Inl (TypeError ''string indices must be integers'')
                  else Inr None
      | YList xs \<Rightarrow> if YStr key \<in> set xs
                   then Inl (TypeError ''list indices must be integers or slices, not str'')
                   else Inr None
      | v \<Rightarrow> Inl (TypeError (''argument of type '' @ quoted (type_name v) @ '' is not iterable'')))"

text \<open>
  The lookup of a referenced part: a primitive \<open>part:name\<close> first, an operation
  \<open>operation:name\<close> otherwise, no edge when neither is a node.
\<close>

definition depend_on_part :: "graph_env \<Rightarrow> GraphBuilder \<Rightarrow> string \<Rightarrow> yaml \<Rightarrow> error + GraphBuilder" where
  "depend_on_part env b dependent_id part_name =
     (let part_id = ''part:'' @ py_format (str_of env) part_name;
          operation_id = ''operation:'' @ py_format (str_of env) part_name
      in if contains (builder_graph b) part_id then depend b dependent_id part_id
         else if contains (builder_graph b) operation_id then depend b dependent_id operation_id
         else Inr b)"

definition extract_part_dependencies :: "graph_env \<Rightarrow> GraphBuilder \<Rightarrow> (string \<times> yaml) list \<Rightarrow> error + GraphBuilder" where
  "extract_part_dependencies env =
     for_items (\<lambda>b (part_name, part_spec).
       case depend_on_parameters b (''part:'' @ part_name) None (find_parameter_refs part_spec) of
         Inl e \<Rightarrow> Inl e
       | Inr b1 \<Rightarrow>
           (case spec_lookup part_spec ''sketch'' of
              Inl e \<Rightarrow> Inl e
            | Inr None \<Rightarrow> Inr b1
            | Inr (Some sketch_name) \<Rightarrow>
                (let sketch_id = ''sketch:'' @ py_format (str_of env) sketch_name in
                 if contains (builder_graph b1) sketch_id
                 then depend b1 (''part:'' @ part_name) sketch_id
                 else Inr b1)))"

text \<open>
  Python's equality on the values that can be members of a set: \<open>True\<close> equals 1
  and \<open>False\<close> equals 0. A list or a dictionary cannot be a member.
\<close>

definition py_key_eq :: "yaml \<Rightarrow> yaml \<Rightarrow> bool" where
  "py_key_eq a b =
     (case (a, b) of
        (YBool x, YInt n) \<Rightarrow> n = (if x then 1 else 0)
      | (YInt n, YBool x) \<Rightarrow> n = (if x then 1 else 0)
      | _ \<Rightarrow> a = b)"

fun set_add_all :: "yaml list \<Rightarrow> yaml list \<Rightarrow> error + yaml list" where
  "set_add_all acc [] = Inr acc"
| "set_add_all acc (v # vs) =
     (case v of
        YList _ \<Rightarrow> Inl (TypeError (''unhashable type: '' @ quoted ''list''))
      | YDict _ \<Rightarrow> Inl (TypeError (''unhashable type: '' @ quoted ''dict''))
      | _ \<Rightarrow> set_add_all (if list_ex (py_key_eq v) acc then acc else acc @ [v]) vs)"

text \<open>
  \<open>_extract_operation_part_refs\<close>: the values under \<open>input\<close>, \<open>inputs\<close>, \<open>base\<close>,
  \<open>parts\<close>, \<open>subtract\<close>, \<open>union\<close> and \<open>tool\<close>, in this order; the four list keys
  count only when they hold a list. The result is a set, listed here in the
  order of insertion.
\<close>

definition single_ref :: "(string \<times> yaml) list \<Rightarrow> string \<Rightarrow> yaml list" where
  "single_ref d key = (case map_of d key of None \<Rightarrow> [] | Some v \<Rightarrow> [v])"

definition list_refs :: "(string \<times> yaml) list \<Rightarrow> string \<Rightarrow> yaml list" where
  "list_refs d key = (case map_of d key of Some (YList xs) \<Rightarrow> xs | _ \<Rightarrow> [])"

definition extract_operation_part_refs :: "(string \<times> yaml) list \<Rightarrow> error + yaml list" where
  "extract_operation_part_refs op_spec =
     set_add_all []
       (single_ref op_spec ''input'' @ list_refs op_spec ''inputs'' @ single_ref op_spec ''base''
        @ list_refs op_spec ''parts'' @ list_refs op_spec ''subtract'' @ list_refs op_spec ''union''
        @ single_ref op_spec ''tool'')"

definition extract_operation_dependencies :: "graph_env \<Rightarrow> GraphBuilder \<Rightarrow> (string \<times> yaml) list \<Rightarrow> error + GraphBuilder" where
  "extract_operation_dependencies env =
     for_items (\<lambda>b (op_name, op_spec).
       case op_spec of
         YDict d \<Rightarrow>
           (case depend_on_parameters b (''operation:'' @ op_name) None (find_parameter_refs op_spec) of
              Inl e \<Rightarrow> Inl e
            | Inr b1 \<Rightarrow>
                (case extract_operation_part_refs d of
                   Inl e \<Rightarrow> Inl e
                 | Inr part_refs \<Rightarrow>
                     for_items (\<lambda>b2 part_name. depend_on_part env b2 (''operation:'' @ op_name) part_name)
                       b1 part_refs))
       | v \<Rightarrow> Inl (AttributeError (quoted (type_name v) @ '' object has no attribute '' @ quoted ''get'')))"

definition extract_reference_dependencies :: "graph_env \<Rightarrow> GraphBuilder \<Rightarrow> (string \<times> yaml) list \<Rightarrow> error + GraphBuilder" where
  "extract_reference_dependencies env =
     for_items (\<lambda>b (ref_name, ref_spec).
       case depend_on_parameters b (''reference:'' @ ref_name) None (find_parameter_refs ref_spec) of
         Inl e \<Rightarrow> Inl e
       | Inr b1 \<Rightarrow>
           (case spec_lookup ref_spec ''part'' of
              Inl e \<Rightarrow> Inl e
            | Inr None \<Rightarrow> Inr b1
            | Inr (Some part_name) \<Rightarrow> depend_on_part env b1 (''reference:'' @ ref_name) part_name))"


subsection \<open>Cycles\<close>

text \<open>
  A simple cycle of a graph: a non-empty list of nodes without repetition in
  which every node has an edge to the next and the last has one to the first.
\<close>

definition cycle_edges :: "string list \<Rightarrow> (string \<times> string) list" where
  "cycle_edges c = zip c (rotate1 c)"

definition is_simple_cycle :: "DiGraph \<Rightarrow> string list \<Rightarrow> bool" where
  "is_simple_cycle g c = (c \<noteq> [] \<and> distinct c \<and> set (cycle_edges c) \<subseteq> set (dg_edges g))"

fun index_of :: "'a list \<Rightarrow> 'a \<Rightarrow> nat" where
  "index_of [] x = 0"
| "index_of (y # ys) x = (if x = y then 0 else Suc (index_of ys x))"

definition starts_earliest :: "string list \<Rightarrow> string list \<Rightarrow> bool" where
  "starts_earliest vs c = (c \<noteq> [] \<and> (\<forall>y \<in> set c. index_of vs (hd c) \<le> index_of vs y))"

definition candidate_lists :: "string list \<Rightarrow> string list list" where
  "candidate_lists vs = concat (map (\<lambda>k. filter distinct (List.n_lists k vs)) [1..<Suc (length vs)])"

text \<open>
  Modelled from the documentation of networkx: \<open>nx.simple_cycles\<close> lists every
  simple cycle of the graph once, a self-loop being a cycle of one node. networkx
  fixes neither the node at which a cycle starts nor the order of the cycles;
  the model starts each cycle at its earliest inserted node and lists shorter
  cycles first.
\<close>

definition simple_cycles :: "DiGraph \<Rightarrow> string list list" where
  "simple_cycles g =
     filter (\<lambda>c. is_simple_cycle g c \<and> starts_earliest (dg_nodes g) c) (candidate_lists (dg_nodes g))"

definition detect_cycles :: "ModelGraph \<Rightarrow> string list list" where
  "detect_cycles g = simple_cycles (graph g)"

text \<open>\<open>' -> '.join(xs)\<close>.\<close>

fun join_arrow :: "string list \<Rightarrow> string" where
  "join_arrow [] = []"
| "join_arrow [x] = x"
| "join_arrow (x # y # ys) = x @ '' -> '' @ join_arrow (y # ys)"

text \<open>
  Phases 1 and 2 of \<open>build_graph\<close>: the nodes, then the dependencies. Each step
  runs when the one before has not raised; \<open>then_do\<close> passes its result on.
\<close>

definition then_do :: "error + 'a \<Rightarrow> ('a \<Rightarrow> error + 'b) \<Rightarrow> error + 'b" where
  "then_do r f = (case r of Inl e \<Rightarrow> Inl e | Inr x \<Rightarrow> f x)"

definition build_phases :: "graph_env \<Rightarrow> GraphBuilder \<Rightarrow> (string \<times> yaml) list \<Rightarrow> error + GraphBuilder" where
  "build_phases env b0 yaml_data =
     then_do (section_items yaml_data ''parameters'') (\<lambda>ps.
     then_do (add_parameter_nodes env b0 ps) (\<lambda>b1.
     then_do (section_items yaml_data ''sketches'') (\<lambda>ss.
     then_do (add_sketch_nodes env b1 ss) (\<lambda>b2.
     then_do (section_items yaml_data ''parts'') (\<lambda>pts.
     then_do (add_part_nodes env b2 pts) (\<lambda>b3.
     then_do (section_items yaml_data ''operations'') (\<lambda>ops.
     then_do (add_operation_nodes env b3 ops) (\<lambda>b4.
     then_do (section_items yaml_data ''references'') (\<lambda>rfs.
     then_do (add_reference_nodes env b4 rfs) (\<lambda>b5.
     then_do (extract_parameter_dependencies b5 ps) (\<lambda>b6.
     then_do (extract_sketch_dependencies b6 ss) (\<lambda>b7.
     then_do (extract_part_dependencies env b7 pts) (\<lambda>b8.
     then_do (extract_operation_dependencies env b8 ops) (\<lambda>b9.
     extract_reference_dependencies env b9 rfs))))))))))))))"

definition build_graph :: "graph_env \<Rightarrow> GraphBuilder \<Rightarrow> (string \<times> yaml) list \<Rightarrow> error + ModelGraph" where
  "build_graph env b0 yaml_data =
     (case build_phases env b0 yaml_data of
        Inl e \<Rightarrow> Inl e
      | Inr b \<Rightarrow>
          (case detect_cycles (builder_graph b) of
             [] \<Rightarrow> Inr (builder_graph b)
           | cyc # _ \<Rightarrow>
               Inl (GraphBuilderError (''Circular dependency detected: '' @ join_arrow (cyc @ [hd cyc])))))"

definition has_cycle :: "DiGraph \<Rightarrow> bool" where
  "has_cycle g = (\<exists>v. (v, v) \<in> (set (dg_edges g))\<^sup>+)"

subsection \<open>Concrete documents\<close>

definition graph_env0 :: graph_env where
  "graph_env0 = \<lparr>sha256_hexdigest = (\<lambda>s. replicate 64 CHR ''0''), str_of = (\<lambda>v. ''?'')\<rparr>"

definition doc_ab :: "(string \<times> yaml) list" where
  "doc_ab = [(''parameters'', YDict [(''a'', YStr ''${b}''), (''b'', YStr ''${a}'')])]"

definition doc_self :: "(string \<times> yaml) list" where
  "doc_self = [(''parameters'', YDict [(''a'', YStr ''${a}'')])]"

definition doc_self_and_cycle :: "(string \<times> yaml) list" where
  "doc_self_and_cycle =
     [(''parameters'', YDict [(''a'', YStr ''${a}''), (''b'', YStr ''${c}''), (''c'', YStr ''${b}'')])]"

definition doc_plate :: "(string \<times> yaml) list" where
  "doc_plate =
     [(''parameters'', YDict [(''width'', YInt 100), (''half'', YStr ''${width / 2}'')]),
      (''parts'', YDict [(''plate'', YDict [(''primitive'', YStr ''box''), (''size'', YStr ''${width}'')])]),
      (''operations'', YDict [(''moved'', YDict [(''type'', YStr ''transform''), (''input'', YStr ''plate''),
                                                  (''offset'', YStr ''${half}'')])])]"

(*THEOREMS*)

section \<open>The valid set of the model graph\<close>

lemma flagged_valid_iff:
  "distinct (map fst (nodes g)) \<Longrightarrow>
   x \<in> flagged_valid g \<longleftrightarrow> (\<exists>n. map_of (nodes g) x = Some n \<and> is_valid n)"
  unfolding flagged_valid_def by force

lemma contains_iff: "contains g nid \<longleftrightarrow> map_of (nodes g) nid \<noteq> None"
  by (simp add: contains_def map_of_eq_None_iff)

lemma inv_add_node:
  assumes "graph_inv g" and "add_node g n = Inr g'"
  shows "graph_inv g'"
proof -
  from assms(2) have new: "map_of (nodes g) (node_id n) = None"
    by (auto simp: add_node_def contains_iff split: if_splits)
  from assms(2) new have g': "g' = g\<lparr>nodes := AList.update (node_id n) n (nodes g),
      graph := dg_add_node (graph g) (node_id n),
      valid_nodes := (if is_valid n then insert (node_id n) (valid_nodes g) else valid_nodes g)\<rparr>"
    by (simp add: add_node_def contains_iff)
  from assms(1) have d: "distinct (map fst (nodes g))" and v: "valid_nodes g = flagged_valid g"
    by (simp_all add: graph_inv_def)
  have d': "distinct (map fst (nodes g'))"
    using d by (simp add: g' distinct_update)
  have "valid_nodes g' = flagged_valid g'"
  proof (rule set_eqI)
    fix x
    show "x \<in> valid_nodes g' \<longleftrightarrow> x \<in> flagged_valid g'"
      unfolding flagged_valid_iff [OF d']
      using new by (auto simp: g' v flagged_valid_iff [OF d] update_conv')
  qed
  with d' show ?thesis by (simp add: graph_inv_def)
qed

lemma inv_mark_invalid:
  assumes "graph_inv g"
  shows "graph_inv (mark_invalid g nid)"
proof (cases "map_of (nodes g) nid")
  case None
  with assms show ?thesis by (simp add: mark_invalid_def)
next
  case (Some n)
  let ?g' = "mark_invalid g nid"
  from assms have d: "distinct (map fst (nodes g))" and v: "valid_nodes g = flagged_valid g"
    by (simp_all add: graph_inv_def)
  have d': "distinct (map fst (nodes ?g'))"
    using d Some by (simp add: mark_invalid_def distinct_update)
  have "valid_nodes ?g' = flagged_valid ?g'"
  proof (rule set_eqI)
    fix x
    show "x \<in> valid_nodes ?g' \<longleftrightarrow> x \<in> flagged_valid ?g'"
      unfolding flagged_valid_iff [OF d']
      using Some by (auto simp: mark_invalid_def v flagged_valid_iff [OF d] update_conv')
  qed
  with d' show ?thesis by (simp add: graph_inv_def)
qed

lemma inv_mark_valid:
  assumes "graph_inv g"
  shows "graph_inv (mark_valid g nid ts now)"
proof (cases "map_of (nodes g) nid")
  case None
  with assms show ?thesis by (simp add: mark_valid_def)
next
  case (Some n)
  let ?g' = "mark_valid g nid ts now"
  from assms have d: "distinct (map fst (nodes g))" and v: "valid_nodes g = flagged_valid g"
    by (simp_all add: graph_inv_def)
  have d': "distinct (map fst (nodes ?g'))"
    using d Some by (simp add: mark_valid_def distinct_update)
  have "valid_nodes ?g' = flagged_valid ?g'"
  proof (rule set_eqI)
    fix x
    show "x \<in> valid_nodes ?g' \<longleftrightarrow> x \<in> flagged_valid ?g'"
      unfolding flagged_valid_iff [OF d']
      using Some by (auto simp: mark_valid_def v flagged_valid_iff [OF d] update_conv')
  qed
  with d' show ?thesis by (simp add: graph_inv_def)
qed

lemma inv_apply: "graph_inv g \<Longrightarrow> graph_inv (apply_graph_op g op)"
  by (cases op) (auto simp: inv_mark_invalid inv_mark_valid inv_add_node split: sum.splits)

lemma inv_foldl: "graph_inv g \<Longrightarrow> graph_inv (foldl apply_graph_op g ops)"
  by (induction ops arbitrary: g) (simp_all add: inv_apply)

lemma inv_init: "graph_inv ModelGraph_init"
  by (simp add: graph_inv_def ModelGraph_init_def flagged_valid_def)

lemma inv_run: "graph_inv (run_graph_ops ops)"
  by (simp add: run_graph_ops_def inv_foldl inv_init)

text \<open>
  C10. After any sequence of \<open>add_node\<close>, \<open>mark_invalid\<close> and \<open>mark_valid\<close> calls on a
  fresh graph, \<open>valid_nodes\<close> is exactly the set of ids whose stored node has
  \<open>is_valid\<close> set. On such a graph, \<open>mark_invalid\<close> of a stored node removes its id from
  the set and clears the flag; \<open>mark_valid\<close> adds the id, sets the flag and stamps
  \<open>last_built\<close> with the given timestamp, or with the clock when none (or zero) is given.
\<close>

theorem valid_nodes_is_flagged_set:
  "valid_nodes (run_graph_ops ops) = flagged_valid (run_graph_ops ops) \<and>
   distinct (map fst (nodes (run_graph_ops ops))) \<and>
   (\<forall>nid n. map_of (nodes (run_graph_ops ops)) nid = Some n \<longrightarrow>
      valid_nodes (mark_invalid (run_graph_ops ops) nid) = valid_nodes (run_graph_ops ops) - {nid} \<and>
      map_of (nodes (mark_invalid (run_graph_ops ops) nid)) nid = Some (n\<lparr>is_valid := False\<rparr>) \<and>
      (\<forall>ts now.
         valid_nodes (mark_valid (run_graph_ops ops) nid ts now) = insert nid (valid_nodes (run_graph_ops ops)) \<and>
         map_of (nodes (mark_valid (run_graph_ops ops) nid ts now)) nid =
           Some (n\<lparr>is_valid := True,
                   last_built := Some (if ts = None \<or> ts = Some 0 then now else the ts)\<rparr>)))"
proof -
  have inv: "graph_inv (run_graph_ops ops)"
    by (rule inv_run)
  have eff: "valid_nodes (mark_invalid g nid) = valid_nodes g - {nid} \<and>
      map_of (nodes (mark_invalid g nid)) nid = Some (n\<lparr>is_valid := False\<rparr>) \<and>
      valid_nodes (mark_valid g nid ts now) = insert nid (valid_nodes g) \<and>
      map_of (nodes (mark_valid g nid ts now)) nid =
        Some (n\<lparr>is_valid := True,
                last_built := Some (if ts = None \<or> ts = Some 0 then now else the ts)\<rparr>)"
    if "map_of (nodes g) nid = Some n" for g nid n ts now
    using that by (cases ts) (simp_all add: mark_invalid_def mark_valid_def update_conv')
  from inv eff show ?thesis
    unfolding graph_inv_def by blast
qed

theorem valid_nodes_is_flagged_set_witness:
  "map_of (nodes (run_graph_ops [AddNode node_width, AddNode node_base, AddNode node_width,
        MarkValid ''part:base'' None 7, MarkInvalid ''parameter:width''])) ''part:base''
     = Some (node_base\<lparr>is_valid := True, last_built := Some 7\<rparr>) \<and>
   valid_nodes (run_graph_ops [AddNode node_width, AddNode node_base, AddNode node_width,
        MarkValid ''part:base'' None 7, MarkInvalid ''parameter:width'']) = {''part:base''} \<and>
   valid_nodes (mark_invalid (run_graph_ops [AddNode node_width, AddNode node_base, AddNode node_width,
        MarkValid ''part:base'' None 7, MarkInvalid ''parameter:width'']) ''part:base'') = {}"
proof -
  let ?ops = "[AddNode node_width, AddNode node_base, AddNode node_width,
        MarkValid ''part:base'' None 7, MarkInvalid ''parameter:width'']"
  have run: "run_graph_ops ?ops =
      \<lparr>graph = \<lparr>dg_nodes = [''parameter:width'', ''part:base''], dg_edges = []\<rparr>,
       nodes = [(''parameter:width'', node_width\<lparr>is_valid := False\<rparr>),
                (''part:base'', node_base\<lparr>is_valid := True, last_built := Some 7\<rparr>)],
       valid_nodes = {''part:base''}\<rparr>"
    by (simp add: run_graph_ops_def add_node_def contains_def mark_valid_def mark_invalid_def
        ModelGraph_init_def DiGraph_init_def dg_add_node_def node_width_def node_base_def
        insert_Diff_if)
  have look: "map_of (nodes (run_graph_ops ?ops)) ''part:base''
      = Some (node_base\<lparr>is_valid := True, last_built := Some 7\<rparr>)"
    by (simp add: run)
  from valid_nodes_is_flagged_set [of ?ops] look
  have "valid_nodes (mark_invalid (run_graph_ops ?ops) ''part:base'')
      = valid_nodes (run_graph_ops ?ops) - {''part:base''}"
    by blast
  with look show ?thesis by (simp add: run)
qed

section \<open>Cloning a part\<close>

lemma clone_shares_geometry:
  assumes "clone get_center h p n = Inr (p', h')"
  shows "geometry p' = geometry p
    \<and> h' = h @ [the (deref h (metadata p)), the (deref h (transform_history p))]
    \<and> metadata p' = length h \<and> transform_history p' = Suc (length h)"
  using assms
  by (auto simp: clone_def alloc_def deref_def post_init_def Let_def nth_append
      split: option.splits pyobj.splits sum.splits if_splits)

text \<open>
  C1. \<open>clone\<close> is documented to return a part with copied geometry. On the part
  \<open>part0\<close> the clone's metadata and transform history are new objects (references 3
  and 4) with the contents of the original's, but its geometry is reference 0,
  the original's own handle: no geometry object is allocated.
\<close>

theorem clone_geometry_is_alias:
  "clone (\<lambda>g. Inr (0, 0, 0)) store0 part0 ''copy'' =
     Inr (\<lparr>name = ''copy'', geometry = 0, metadata = 3, transform_history = 4,
           current_position = Some (0, 0, 0), backend = None\<rparr>,
          [PyGeometry 42, PyDict [(''color'', YStr ''red'')], PyList [],
           PyDict [(''color'', YStr ''red'')], PyList []])
   \<and> geometry part0 = 0"
  by (simp add: clone_def store0_def part0_def alloc_def deref_def post_init_def)

section \<open>Metadata of the result of a boolean operation\<close>

lemma map_of_dict_update: "map_of (dict_update d u) = map_of d ++ map_of (rev u)"
  unfolding dict_update_def
proof (induction u arbitrary: d)
  case Nil
  show ?case by simp
next
  case (Cons x u)
  have "(map_of d)(fst x \<mapsto> snd x) ++ map_of (rev u) = map_of d ++ (map_of (rev u @ [x]))"
    by (cases x) (auto simp: map_add_def fun_eq_iff split: option.splits)
  moreover have "map_of (AList.update (fst x) (snd x) d) = (map_of d)(fst x \<mapsto> snd x)"
    by (rule update_conv')
  moreover note Cons.IH [of "AList.update (fst x) (snd x) d"]
  ultimately show ?case
    by (simp only: foldl_Cons rev.simps)
qed

lemma map_of_rev_distinct: "distinct (map fst u) \<Longrightarrow> map_of (rev u) = map_of u"
  by (rule ext) (metis distinct_rev map_of_eq_None_iff map_of_is_SomeI map_of_SomeD not_Some_eq rev_map set_rev)

lemma map_of_copy_loop:
  "map_of (foldl (\<lambda>acc key. case map_of src key of None \<Rightarrow> acc | Some v \<Rightarrow> AList.update key v acc) d keys)
     = map_of d ++ (map_of src |` set keys)"
proof (induction keys arbitrary: d)
  case Nil
  show ?case by simp
next
  case (Cons k keys)
  show ?case
    by (rule ext)
       (auto simp: Cons.IH update_conv' map_add_def restrict_map_def split: option.splits)
qed

lemma copy_propagating_metadata_map:
  assumes "set keys = PROPAGATING_METADATA"
    and "case ov of None \<Rightarrow> True | Some u \<Rightarrow> distinct (map fst u)"
  shows "map_of (copy_propagating_metadata keys src tgt ov) =
     spec_metadata (map_of tgt) (map_option map_of src) (case ov of None \<Rightarrow> Map.empty | Some u \<Rightarrow> map_of u)"
proof -
  let ?r1 = "(case src of None \<Rightarrow> tgt
      | Some s \<Rightarrow> if s = [] then tgt
                  else foldl (\<lambda>acc key. case map_of s key of None \<Rightarrow> acc | Some v \<Rightarrow> AList.update key v acc) tgt keys)"
  have r1: "map_of ?r1 = map_of tgt ++ (case map_option map_of src of None \<Rightarrow> Map.empty
        | Some m \<Rightarrow> m |` PROPAGATING_METADATA)"
    using assms(1) by (cases src) (auto simp: map_of_copy_loop)
  have "map_of (case ov of None \<Rightarrow> ?r1 | Some u \<Rightarrow> if u = [] then ?r1 else dict_update ?r1 u)
      = map_of ?r1 ++ (case ov of None \<Rightarrow> Map.empty | Some u \<Rightarrow> map_of u)"
    using assms(2) by (cases ov) (auto simp: map_of_dict_update map_of_rev_distinct)
  then show ?thesis
    unfolding copy_propagating_metadata_def spec_metadata_def Let_def r1 [symmetric] .
qed

lemma update_new_key: "k \<notin> fst ` set al \<Longrightarrow> AList.update k v al = al @ [(k, v)]"
  by (induction al) auto

lemma registry_get_map_of: "registry_get reg n = Inr p \<longleftrightarrow> map_of reg n = Some p"
  by (auto simp: registry_get_def split: option.splits)

lemma registry_exists_map_of: "registry_exists reg n \<longleftrightarrow> map_of reg n \<noteq> None"
  by (simp add: registry_exists_def map_of_eq_None_iff)

lemma post_init_fields:
  "post_init gc p = Inr p' \<Longrightarrow> name p' = name p \<and> metadata p' = metadata p \<and> geometry p' = geometry p"
  by (auto simp: post_init_def split: option.splits sum.splits)

lemma registry_add_appends:
  "registry_add reg p = Inr reg' \<Longrightarrow> reg' = reg @ [(name p, p)]"
  by (auto simp: registry_add_def registry_exists_def update_new_key split: if_splits)

lemma retrieve_parts_exist:
  "retrieve_parts label reg nm names = Inr ps \<Longrightarrow> n \<in> set names \<Longrightarrow> registry_exists reg n"
  by (induction names arbitrary: ps) (auto split: if_splits sum.splits)

lemma expand_plain_first:
  assumes "CHR ''*'' \<notin> set s" and "expand_part_list env reg (YStr s # rest) = Inr names"
  shows "s \<in> set names"
  using assms by (auto simp: expand_item_def split: sum.splits)

lemma execute_difference_base:
  assumes "execute_difference env reg nm rs = Inr g"
  shows "\<exists>b p. map_of rs ''base'' = Some (YStr b) \<and> map_of reg b = Some p"
proof -
  from assms obtain base_name where b: "map_of rs ''base'' = Some base_name"
    by (auto simp: execute_difference_def split: option.splits)
  from assms b have ex: "registry_exists_value reg base_name = Inr True"
    by (auto simp: execute_difference_def split: option.splits yaml.splits sum.splits if_splits bool.splits)
  then obtain bn where bn: "base_name = YStr bn" and "registry_exists reg bn"
    by (auto simp: registry_exists_value_def split: yaml.splits)
  then obtain p where "map_of reg bn = Some p"
    by (auto simp: registry_exists_map_of)
  with b bn show ?thesis by blast
qed

lemma execute_union_inputs:
  assumes "execute_union env reg nm rs = Inr g"
  shows "\<exists>first rest names. map_of rs ''inputs'' = Some (YList (first # rest)) \<and>
     expand_part_list env reg (first # rest) = Inr names \<and> (\<forall>n \<in> set names. registry_exists reg n)"
proof -
  from assms obtain inputs0 where i: "map_of rs ''inputs'' = Some (YList inputs0)"
    by (auto simp: execute_union_def split: option.splits yaml.splits)
  from assms i obtain names where n: "expand_part_list env reg inputs0 = Inr names"
    and l: "\<not> length names < 2"
    by (auto simp: execute_union_def split: sum.splits if_splits)
  from assms i n l obtain ps where "retrieve_parts ''Union'' reg nm names = Inr ps"
    by (auto simp: execute_union_def split: sum.splits)
  then have ex: "\<forall>n \<in> set names. registry_exists reg n"
    by (blast intro: retrieve_parts_exist)
  from n l have "inputs0 \<noteq> []" by auto
  then obtain first rest where "inputs0 = first # rest" by (cases inputs0) auto
  with i n ex show ?thesis by blast
qed

lemma metadata_source_difference:
  assumes "map_of rs ''base'' = Some (YStr b)" and "map_of reg b = Some p"
  shows "metadata_source reg (YStr ''difference'') rs = Inr (Some p)"
  using assms
  by (simp add: metadata_source_def registry_exists_value_def registry_exists_map_of registry_get_def)

lemma metadata_source_union_plain:
  assumes "map_of rs ''inputs'' = Some (YList (YStr s # rest))" and "CHR ''*'' \<notin> set s"
    and "map_of reg s = Some p"
  shows "metadata_source reg (YStr ''union'') rs = Inr (Some p)"
  using assms
  by (simp add: metadata_source_def registry_exists_map_of registry_get_def)

lemma metadata_source_union_pattern:
  assumes "map_of rs ''inputs'' = Some (YList (first # rest))"
    and "case first of YStr s \<Rightarrow> CHR ''*'' \<in> set s | _ \<Rightarrow> True"
  shows "metadata_source reg (YStr ''union'') rs = Inr None"
  using assms
  by (cases first) (simp_all add: metadata_source_def)

lemma boolean_operation_body_result:
  assumes "boolean_operation_body env reg nm operation rs = Inr reg'"
  shows "\<exists>geom src part.
     (if operation = YStr ''union'' then execute_union env reg nm rs
      else if operation = YStr ''difference'' then execute_difference env reg nm rs
      else execute_intersection env reg nm rs) = Inr geom \<and>
     metadata_source reg operation rs = Inr src \<and>
     reg' = reg @ [(nm, part)] \<and>
     metadata part = copy_propagating_metadata (propagating_order env) (map_option metadata src)
        [(''operation_type'', YStr ''boolean''), (''boolean_op'', operation)] None"
proof -
  from assms obtain geom src part where
    g: "(if operation = YStr ''union'' then execute_union env reg nm rs
      else if operation = YStr ''difference'' then execute_difference env reg nm rs
      else execute_intersection env reg nm rs) = Inr geom" and
    src: "metadata_source reg operation rs = Inr src" and
    pi: "post_init (geom_center env)
           \<lparr>name = nm, geometry = geom,
            metadata = copy_propagating_metadata (propagating_order env) (map_option metadata src)
              [(''operation_type'', YStr ''boolean''), (''boolean_op'', operation)] None,
            transform_history = [], current_position = None, backend = None\<rparr> = Inr part" and
    add: "registry_add reg part = Inr reg'"
    unfolding boolean_operation_body_def Let_def
    by (auto split: sum.splits if_splits)
  from pi have "name part = nm" and
    "metadata part = copy_propagating_metadata (propagating_order env) (map_option metadata src)
              [(''operation_type'', YStr ''boolean''), (''boolean_op'', operation)] None"
    by (auto dest: post_init_fields)
  moreover from add have "reg' = reg @ [(name part, part)]"
    by (rule registry_add_appends)
  ultimately show ?thesis using g src by blast
qed


text \<open>
  C7 (amended). When \<open>execute_boolean_operation\<close> succeeds it appends one part to
  the registry. For a difference the \<open>base\<close> entry names a registered part, and the
  metadata of the new part, as a mapping, is the two operation entries united
  with the propagating keys (\<open>color\<close>, \<open>material\<close>, \<open>transparency\<close>, \<open>texture\<close>,
  \<open>finish\<close>) of that part. For a union \<open>inputs\<close> is a non-empty list: when its first
  entry is a plain name, that name is a registered part and its propagating keys
  are united with the operation entries; when the first entry is a string with
  \<open>*\<close> or is not a string (a pattern or range dictionary, also a numeric range),
  the metadata is the operation entries alone. In \<open>copy_propagating_metadata\<close>
  explicit overrides take precedence over both. All of this holds for every
  iteration order of the set of propagating keys. Nothing is stated about
  intersections.
\<close>

theorem boolean_metadata_propagation:
  assumes "set (propagating_order env) = PROPAGATING_METADATA"
  shows "(execute_boolean_operation env reg nm spc = Inr reg' \<longrightarrow>
      (\<exists>rs operation part.
          resolver_resolve env spc = Inr rs \<and> map_of rs ''operation'' = Some operation \<and>
          reg' = reg @ [(nm, part)] \<and>
          (operation = YStr ''difference'' \<longrightarrow>
             (\<exists>b p. map_of rs ''base'' = Some (YStr b) \<and> map_of reg b = Some p \<and>
                map_of (metadata part) =
                  spec_metadata (operation_entries operation) (Some (map_of (metadata p))) Map.empty)) \<and>
          (operation = YStr ''union'' \<longrightarrow>
             (\<exists>first rest. map_of rs ''inputs'' = Some (YList (first # rest)) \<and>
                (case first of
                   YStr s \<Rightarrow>
                     if CHR ''*'' \<in> set s
                     then map_of (metadata part) = spec_metadata (operation_entries operation) None Map.empty
                     else (\<exists>p. map_of reg s = Some p \<and>
                            map_of (metadata part) =
                              spec_metadata (operation_entries operation) (Some (map_of (metadata p))) Map.empty)
                 | _ \<Rightarrow> map_of (metadata part) = spec_metadata (operation_entries operation) None Map.empty)))))
    \<and> (\<forall>src tgt ov. (case ov of None \<Rightarrow> True | Some u \<Rightarrow> distinct (map fst u)) \<longrightarrow>
          map_of (copy_propagating_metadata (propagating_order env) src tgt ov) =
            spec_metadata (map_of tgt) (map_option map_of src)
              (case ov of None \<Rightarrow> Map.empty | Some (u :: (string \<times> yaml) list) \<Rightarrow> map_of u))"
proof (intro conjI impI allI)
  assume ex: "execute_boolean_operation env reg nm spc = Inr reg'"
  then obtain rs operation where
    rs: "resolver_resolve env spc = Inr rs" and opn: "map_of rs ''operation'' = Some operation" and
    body: "boolean_operation_body env reg nm operation rs = Inr reg'"
    unfolding execute_boolean_operation_def
    by (auto split: sum.splits option.splits error.splits)
  from boolean_operation_body_result [OF body] obtain geom src part where
    g: "(if operation = YStr ''union'' then execute_union env reg nm rs
      else if operation = YStr ''difference'' then execute_difference env reg nm rs
      else execute_intersection env reg nm rs) = Inr geom" and
    src: "metadata_source reg operation rs = Inr src" and
    reg': "reg' = reg @ [(nm, part)]" and
    md: "metadata part = copy_propagating_metadata (propagating_order env) (map_option metadata src)
        [(''operation_type'', YStr ''boolean''), (''boolean_op'', operation)] None"
    by blast
  have cm: "map_of (copy_propagating_metadata (propagating_order env) so tgt None) =
      spec_metadata (map_of tgt) (map_option map_of so) Map.empty" for so and tgt :: "(string \<times> yaml) list"
    using copy_propagating_metadata_map [OF assms, of None so tgt] by simp
  have mdmap: "map_of (metadata part) =
      spec_metadata (operation_entries operation) (map_option (\<lambda>p. map_of (metadata p)) src) Map.empty"
    unfolding md cm operation_entries_def by (simp add: option.map_comp comp_def)
  have diff: "\<exists>b p. map_of rs ''base'' = Some (YStr b) \<and> map_of reg b = Some p \<and>
      map_of (metadata part) =
        spec_metadata (operation_entries operation) (Some (map_of (metadata p))) Map.empty"
    if d: "operation = YStr ''difference''"
  proof -
    from g d have "execute_difference env reg nm rs = Inr geom" by simp
    from execute_difference_base [OF this] obtain b p where
      b: "map_of rs ''base'' = Some (YStr b)" and p: "map_of reg b = Some p" by blast
    from metadata_source_difference [OF b p] src d have "src = Some p" by simp
    with mdmap b p show ?thesis by auto
  qed
  have uni: "\<exists>first rest. map_of rs ''inputs'' = Some (YList (first # rest)) \<and>
      (case first of
         YStr s \<Rightarrow>
           if CHR ''*'' \<in> set s
           then map_of (metadata part) = spec_metadata (operation_entries operation) None Map.empty
           else (\<exists>p. map_of reg s = Some p \<and>
                  map_of (metadata part) =
                    spec_metadata (operation_entries operation) (Some (map_of (metadata p))) Map.empty)
       | _ \<Rightarrow> map_of (metadata part) = spec_metadata (operation_entries operation) None Map.empty)"
    if u: "operation = YStr ''union''"
  proof -
    from g u have "execute_union env reg nm rs = Inr geom" by simp
    from execute_union_inputs [OF this] obtain first rest names where
      i: "map_of rs ''inputs'' = Some (YList (first # rest))" and
      n: "expand_part_list env reg (first # rest) = Inr names" and
      e: "\<forall>n \<in> set names. registry_exists reg n" by blast
    have "case first of
         YStr s \<Rightarrow>
           if CHR ''*'' \<in> set s
           then map_of (metadata part) = spec_metadata (operation_entries operation) None Map.empty
           else (\<exists>p. map_of reg s = Some p \<and>
                  map_of (metadata part) =
                    spec_metadata (operation_entries operation) (Some (map_of (metadata p))) Map.empty)
       | _ \<Rightarrow> map_of (metadata part) = spec_metadata (operation_entries operation) None Map.empty"
    proof (cases "case first of YStr s \<Rightarrow> CHR ''*'' \<in> set s | _ \<Rightarrow> True")
      case True
      from metadata_source_union_pattern [OF i True, where reg = reg] src u have "src = None" by simp
      with mdmap True show ?thesis by (cases first) simp_all
    next
      case False
      then obtain s where f: "first = YStr s" and ns: "CHR ''*'' \<notin> set s"
        by (cases first) simp_all
      from expand_plain_first [OF ns] n f have "s \<in> set names" by simp
      with e have "registry_exists reg s" by blast
      then obtain p where p: "map_of reg s = Some p"
        by (auto simp: registry_exists_map_of)
      from metadata_source_union_plain [OF i [unfolded f] ns p] src u have "src = Some p" by simp
      with mdmap f ns p show ?thesis by simp
    qed
    with i show ?thesis by blast
  qed
  from rs opn reg' diff uni
  show "\<exists>rs operation part.
          resolver_resolve env spc = Inr rs \<and> map_of rs ''operation'' = Some operation \<and>
          reg' = reg @ [(nm, part)] \<and>
          (operation = YStr ''difference'' \<longrightarrow>
             (\<exists>b p. map_of rs ''base'' = Some (YStr b) \<and> map_of reg b = Some p \<and>
                map_of (metadata part) =
                  spec_metadata (operation_entries operation) (Some (map_of (metadata p))) Map.empty)) \<and>
          (operation = YStr ''union'' \<longrightarrow>
             (\<exists>first rest. map_of rs ''inputs'' = Some (YList (first # rest)) \<and>
                (case first of
                   YStr s \<Rightarrow>
                     if CHR ''*'' \<in> set s
                     then map_of (metadata part) = spec_metadata (operation_entries operation) None Map.empty
                     else (\<exists>p. map_of reg s = Some p \<and>
                            map_of (metadata part) =
                              spec_metadata (operation_entries operation) (Some (map_of (metadata p))) Map.empty)
                 | _ \<Rightarrow> map_of (metadata part) = spec_metadata (operation_entries operation) None Map.empty)))"
    by blast
next
  fix src tgt and ov :: "(string \<times> yaml) list option"
  assume "case ov of None \<Rightarrow> True | Some u \<Rightarrow> distinct (map fst u)"
  then show "map_of (copy_propagating_metadata (propagating_order env) src tgt ov) =
            spec_metadata (map_of tgt) (map_option map_of src)
              (case ov of None \<Rightarrow> Map.empty | Some u \<Rightarrow> map_of u)"
    by (rule copy_propagating_metadata_map [OF assms])
qed


theorem boolean_metadata_propagation_witness:
  "set (propagating_order env0) = PROPAGATING_METADATA \<and>
   execute_boolean_operation env0 reg_plate ''cut'' spec_cut = Inr (reg_plate @ [(''cut'', cut_part)]) \<and>
   map_of (metadata cut_part) =
     spec_metadata (operation_entries (YStr ''difference''))
       (Some (map_of [(''primitive_type'', YStr ''box''), (''color'', YStr ''red'')])) Map.empty \<and>
   execute_boolean_operation env0 reg_plate ''both'' spec_plain_union =
     Inr (reg_plate @ [(''both'', union_part)]) \<and>
   map_of (metadata union_part) =
     spec_metadata (operation_entries (YStr ''union''))
       (Some (map_of [(''primitive_type'', YStr ''box''), (''color'', YStr ''red'')])) Map.empty \<and>
   map_of (copy_propagating_metadata (propagating_order env0) (Some [(''color'', YStr ''red'')])
       [(''source'', YStr ''plate'')] (Some [(''color'', YStr ''green'')])) ''color'' = Some (YStr ''green'')"
proof -
  have h: "set (propagating_order env0) = PROPAGATING_METADATA"
    by (auto simp: env0_def PROPAGATING_METADATA_def)
  note T = boolean_metadata_propagation [OF h]
  have rs: "resolver_resolve env0 x = Inr x" for x
    by (simp add: env0_def)
  have plate: "map_of reg_plate ''plate'' =
      Some (plain_part ''plate'' 10 [(''primitive_type'', YStr ''box''), (''color'', YStr ''red'')])"
    by (simp add: reg_plate_def)
  have pm: "metadata (plain_part ''plate'' 10 [(''primitive_type'', YStr ''box''), (''color'', YStr ''red'')])
      = [(''primitive_type'', YStr ''box''), (''color'', YStr ''red'')]"
    by (simp add: plain_part_def)
  have run1: "execute_boolean_operation env0 reg_plate ''cut'' spec_cut = Inr (reg_plate @ [(''cut'', cut_part)])"
    by code_simp
  from T [where reg = reg_plate and nm = "''cut''" and spc = spec_cut
      and reg' = "reg_plate @ [(''cut'', cut_part)]"] run1
  obtain rs1 op1 part1 where
    a1: "resolver_resolve env0 spec_cut = Inr rs1" and b1: "map_of rs1 ''operation'' = Some op1" and
    c1: "reg_plate @ [(''cut'', cut_part)] = reg_plate @ [(''cut'', part1)]" and
    d1: "op1 = YStr ''difference'' \<longrightarrow>
      (\<exists>b p. map_of rs1 ''base'' = Some (YStr b) \<and> map_of reg_plate b = Some p \<and>
         map_of (metadata part1) =
           spec_metadata (operation_entries op1) (Some (map_of (metadata p))) Map.empty)"
    by blast
  from a1 have r1: "rs1 = spec_cut" by (simp add: rs)
  from b1 have o1: "op1 = YStr ''difference''" by (simp add: r1 spec_cut_def)
  from c1 have p1: "part1 = cut_part" by simp
  from d1 o1 obtain b p where "map_of spec_cut ''base'' = Some (YStr b)" and "map_of reg_plate b = Some p"
    and m1: "map_of (metadata cut_part) =
       spec_metadata (operation_entries (YStr ''difference'')) (Some (map_of (metadata p))) Map.empty"
    unfolding r1 p1 by blast
  then have "b = ''plate''" by (simp add: spec_cut_def)
  with \<open>map_of reg_plate b = Some p\<close> plate
  have "p = plain_part ''plate'' 10 [(''primitive_type'', YStr ''box''), (''color'', YStr ''red'')]"
    by simp
  with m1 pm have md1: "map_of (metadata cut_part) =
     spec_metadata (operation_entries (YStr ''difference''))
       (Some (map_of [(''primitive_type'', YStr ''box''), (''color'', YStr ''red'')])) Map.empty"
    by simp
  have run2: "execute_boolean_operation env0 reg_plate ''both'' spec_plain_union =
     Inr (reg_plate @ [(''both'', union_part)])"
    by code_simp
  from T [where reg = reg_plate and nm = "''both''" and spc = spec_plain_union
      and reg' = "reg_plate @ [(''both'', union_part)]"] run2
  obtain rs2 op2 part2 where
    a2: "resolver_resolve env0 spec_plain_union = Inr rs2" and b2: "map_of rs2 ''operation'' = Some op2" and
    c2: "reg_plate @ [(''both'', union_part)] = reg_plate @ [(''both'', part2)]" and
    d2: "op2 = YStr ''union'' \<longrightarrow>
      (\<exists>first rest. map_of rs2 ''inputs'' = Some (YList (first # rest)) \<and>
         (case first of
            YStr s \<Rightarrow>
              if CHR ''*'' \<in> set s
              then map_of (metadata part2) = spec_metadata (operation_entries op2) None Map.empty
              else (\<exists>p. map_of reg_plate s = Some p \<and>
                     map_of (metadata part2) =
                       spec_metadata (operation_entries op2) (Some (map_of (metadata p))) Map.empty)
          | _ \<Rightarrow> map_of (metadata part2) = spec_metadata (operation_entries op2) None Map.empty))"
    by blast
  from a2 have r2: "rs2 = spec_plain_union" by (simp add: rs)
  from b2 have o2: "op2 = YStr ''union''" by (simp add: r2 spec_plain_union_def)
  from c2 have p2: "part2 = union_part" by simp
  from d2 o2 obtain first rest where
    i2: "map_of spec_plain_union ''inputs'' = Some (YList (first # rest))" and
    k2: "case first of
            YStr s \<Rightarrow>
              if CHR ''*'' \<in> set s
              then map_of (metadata union_part) = spec_metadata (operation_entries (YStr ''union'')) None Map.empty
              else (\<exists>p. map_of reg_plate s = Some p \<and>
                     map_of (metadata union_part) =
                       spec_metadata (operation_entries (YStr ''union'')) (Some (map_of (metadata p))) Map.empty)
          | _ \<Rightarrow> map_of (metadata union_part) = spec_metadata (operation_entries (YStr ''union'')) None Map.empty"
    unfolding r2 p2 by blast
  from i2 have "first = YStr ''plate''" by (simp add: spec_plain_union_def)
  with k2 obtain p' where "map_of reg_plate ''plate'' = Some p'" and
    m2: "map_of (metadata union_part) =
       spec_metadata (operation_entries (YStr ''union'')) (Some (map_of (metadata p'))) Map.empty"
    by auto
  with plate pm have md2: "map_of (metadata union_part) =
     spec_metadata (operation_entries (YStr ''union''))
       (Some (map_of [(''primitive_type'', YStr ''box''), (''color'', YStr ''red'')])) Map.empty"
    by simp
  from T have "map_of (copy_propagating_metadata (propagating_order env0) (Some [(''color'', YStr ''red'')])
       [(''source'', YStr ''plate'')] (Some [(''color'', YStr ''green'')]))
     = spec_metadata (map_of [(''source'', YStr ''plate'')]) (map_option map_of (Some [(''color'', YStr ''red'')]))
         (map_of [(''color'', YStr ''green'')])"
    by force
  then have ov: "map_of (copy_propagating_metadata (propagating_order env0) (Some [(''color'', YStr ''red'')])
       [(''source'', YStr ''plate'')] (Some [(''color'', YStr ''green'')])) ''color'' = Some (YStr ''green'')"
    by (simp add: spec_metadata_def)
  from h run1 md1 run2 md2 ov show ?thesis by blast
qed

text \<open>
  C7 as stated fails for a union whose first input is a numeric range: the range
  \<open>hole[1..2]\<close> is not a wildcard and denotes two red parts, the first input is
  \<open>hole_1\<close>, and by the claim the result is red; the builder gives the result no
  colour.
\<close>

theorem union_range_source_counterexample:
  "execute_boolean_operation env0 reg_red ''joined'' spec_join = Inr (reg_red @ [(''joined'', joined_part)]) \<and>
   map_of (metadata joined_part) ''color'' = None \<and>
   \<not> is_wildcard_entry range_entry \<and>
   claimed_union_source env0 reg_red [range_entry, YStr ''plate'']
     = Some (plain_part ''hole_1'' 1 [(''color'', YStr ''red'')]) \<and>
   spec_metadata (operation_entries (YStr ''union'')) (Some (map_of [(''color'', YStr ''red'')])) Map.empty ''color''
     = Some (YStr ''red'')"
  by code_simp

text \<open>
  An intersection is written with the field \<open>inputs\<close>, and the builder looks for
  its source under \<open>base\<close>: the intersection of the red plate with the hole has
  no colour.
\<close>

lemma intersection_inputs_propagate_nothing:
  "execute_boolean_operation env0 reg_plate ''common'' spec_common =
     Inr (reg_plate @ [(''common'', common_part)]) \<and>
   map_of (metadata common_part) ''color'' = None"
  by code_simp

section \<open>Wildcards in part lists\<close>

lemma find_pattern_matches_set:
  "set (find_pattern_matches maxd reg p) = {n \<in> set (registry_list_parts reg). startswith n p}"
  by (simp add: find_pattern_matches_def)

lemma find_pattern_matches_mset:
  "mset (find_pattern_matches maxd reg p) = mset (filter (\<lambda>n. startswith n p) (registry_list_parts reg))"
  by (simp add: find_pattern_matches_def)

lemma find_pattern_matches_sorted:
  "sorted (map (pattern_sort_key maxd p) (find_pattern_matches maxd reg p))"
  by (simp add: find_pattern_matches_def)

lemma sorted_keys_order:
  assumes "sorted (map (pattern_sort_key maxd p) ms)" and "i < j" and "j < length ms"
  shows "pattern_sort_key maxd p (ms ! i) \<le> pattern_sort_key maxd p (ms ! j)"
proof -
  from assms have "map (pattern_sort_key maxd p) ms ! i \<le> map (pattern_sort_key maxd p) ms ! j"
    by (intro sorted_nth_mono) simp_all
  with assms show ?thesis by simp
qed

lemma key_le_remainder_order:
  "pattern_sort_key maxd p x \<le> pattern_sort_key maxd p y \<Longrightarrow> remainder_order maxd p x y"
  by (auto simp: remainder_order_def pattern_sort_key_def Let_def less_eq_prod_def split: option.splits)

lemma expand_part_list_append:
  "expand_part_list env reg (xs @ ys) =
     (case expand_part_list env reg xs of
        Inl e \<Rightarrow> Inl e
      | Inr before \<Rightarrow>
          (case expand_part_list env reg ys of
             Inl e \<Rightarrow> Inl e
           | Inr after \<Rightarrow> Inr (before @ after)))"
  by (induction xs) (auto split: sum.splits)

lemma expand_item_wildcard:
  "CHR ''*'' \<in> set s \<Longrightarrow>
   expand_item env reg (YStr s) =
     (if find_pattern_matches (int_max_str_digits env) reg (filter (\<lambda>c. c \<noteq> CHR ''*'') s) = []
      then Inl (BooleanBuilderError (''Pattern '' @ quoted s @ '' matched no parts. '' @ available_parts reg))
      else Inr (find_pattern_matches (int_max_str_digits env) reg (filter (\<lambda>c. c \<noteq> CHR ''*'') s)))"
  by (simp add: expand_item_def Let_def)

text \<open>
  C2 (amended). Wherever a string containing \<open>*\<close> stands in a part list, it is
  expanded as follows: every \<open>*\<close> is deleted and the rest is used as a prefix. The
  expansion of the list is the expansion of the entries before it, then the
  matches, then the expansion of the entries after it (an error of an entry is
  the error of the list, the earliest first); it is an error when no registry
  name begins with the prefix. The matches are exactly the registry names that
  begin with the prefix, each as often as the registry holds it, ordered so that
  names whose remainder after the prefix is accepted by \<open>int\<close> come first, in
  numeric order, followed by the other names in the order of their remainders as
  strings. In particular \<open>prefix*\<close> matches the names beginning with \<open>prefix\<close>, and
  so does \<open>*prefix\<close>.
\<close>

theorem wildcard_expands_by_prefix:
  assumes "CHR ''*'' \<in> set s"
  shows "let maxd = int_max_str_digits env; p = filter (\<lambda>c. c \<noteq> CHR ''*'') s;
             ms = find_pattern_matches maxd reg p in
     expand_part_list env reg (pre @ YStr s # post) =
       (case expand_part_list env reg pre of
          Inl e \<Rightarrow> Inl e
        | Inr before \<Rightarrow>
            if ms = []
            then Inl (BooleanBuilderError (''Pattern '' @ quoted s @ '' matched no parts. '' @ available_parts reg))
            else (case expand_part_list env reg post of
                    Inl e \<Rightarrow> Inl e
                  | Inr after \<Rightarrow> Inr (before @ ms @ after))) \<and>
     set ms = {n \<in> set (registry_list_parts reg). startswith n p} \<and>
     mset ms = mset (filter (\<lambda>n. startswith n p) (registry_list_parts reg)) \<and>
     (\<forall>i j. i < j \<longrightarrow> j < length ms \<longrightarrow> remainder_order maxd p (ms ! i) (ms ! j))"
proof -
  define maxd where "maxd = int_max_str_digits env"
  define p where "p = filter (\<lambda>c. c \<noteq> CHR ''*'') s"
  define ms where "ms = find_pattern_matches maxd reg p"
  have item: "expand_item env reg (YStr s) =
      (if ms = []
       then Inl (BooleanBuilderError (''Pattern '' @ quoted s @ '' matched no parts. '' @ available_parts reg))
       else Inr ms)"
    unfolding ms_def p_def maxd_def by (rule expand_item_wildcard [OF assms])
  have 1: "expand_part_list env reg (pre @ YStr s # post) =
       (case expand_part_list env reg pre of
          Inl e \<Rightarrow> Inl e
        | Inr before \<Rightarrow>
            if ms = []
            then Inl (BooleanBuilderError (''Pattern '' @ quoted s @ '' matched no parts. '' @ available_parts reg))
            else (case expand_part_list env reg post of
                    Inl e \<Rightarrow> Inl e
                  | Inr after \<Rightarrow> Inr (before @ ms @ after)))"
    unfolding expand_part_list_append by (simp add: item split: sum.splits)
  have 2: "set ms = {n \<in> set (registry_list_parts reg). startswith n p}"
    unfolding ms_def by (rule find_pattern_matches_set)
  have 3: "mset ms = mset (filter (\<lambda>n. startswith n p) (registry_list_parts reg))"
    unfolding ms_def by (rule find_pattern_matches_mset)
  have 4: "remainder_order maxd p (ms ! i) (ms ! j)" if "i < j" "j < length ms" for i j
  proof -
    have "pattern_sort_key maxd p (ms ! i) \<le> pattern_sort_key maxd p (ms ! j)"
      using that unfolding ms_def by (intro sorted_keys_order find_pattern_matches_sorted)
    then show ?thesis by (rule key_le_remainder_order)
  qed
  from 1 2 3 4 show ?thesis
    unfolding Let_def maxd_def [symmetric] p_def [symmetric] ms_def [symmetric] by blast
qed

theorem wildcard_expands_by_prefix_witness:
  "CHR ''*'' \<in> set ''hole_*'' \<and>
   expand_part_list env0 reg_holes [YStr ''a_hole'', YStr ''hole_*'', YStr ''hole_b''] =
     Inr [''a_hole'', ''hole_1'', ''hole_2'', ''hole_3'', ''hole_10'', ''hole_a'', ''hole_b'', ''hole_b''] \<and>
   remainder_order 4300 ''hole_'' ''hole_3'' ''hole_10''"
proof -
  have s: "CHR ''*'' \<in> set ''hole_*''" by simp
  have p: "filter (\<lambda>c. c \<noteq> CHR ''*'') ''hole_*'' = ''hole_''" by simp
  have l: "int_max_str_digits env0 = 4300" by (simp add: env0_def)
  have m: "find_pattern_matches 4300 reg_holes ''hole_'' =
      [''hole_1'', ''hole_2'', ''hole_3'', ''hole_10'', ''hole_a'', ''hole_b'']"
    by code_simp
  have pre: "expand_part_list env0 reg_holes [YStr ''a_hole''] = Inr [''a_hole'']"
    by (simp add: expand_item_def)
  have post: "expand_part_list env0 reg_holes [YStr ''hole_b''] = Inr [''hole_b'']"
    by (simp add: expand_item_def)
  note T = wildcard_expands_by_prefix [OF s, where env = env0 and reg = reg_holes
      and pre = "[YStr ''a_hole'']" and post = "[YStr ''hole_b'']", unfolded Let_def p l m pre post]
  from T have e: "expand_part_list env0 reg_holes [YStr ''a_hole'', YStr ''hole_*'', YStr ''hole_b''] =
     Inr [''a_hole'', ''hole_1'', ''hole_2'', ''hole_3'', ''hole_10'', ''hole_a'', ''hole_b'', ''hole_b'']"
    by simp
  from T have "(2::nat) < 3 \<longrightarrow>
      3 < length [''hole_1'', ''hole_2'', ''hole_3'', ''hole_10'', ''hole_a'', ''hole_b''] \<longrightarrow>
      remainder_order 4300 ''hole_'' ([''hole_1'', ''hole_2'', ''hole_3'', ''hole_10'', ''hole_a'', ''hole_b''] ! 2)
         ([''hole_1'', ''hole_2'', ''hole_3'', ''hole_10'', ''hole_a'', ''hole_b''] ! 3)"
    by blast
  then have "remainder_order 4300 ''hole_'' ''hole_3'' ''hole_10''"
    by simp
  with s e show ?thesis by blast
qed

text \<open>
  C2 as stated fails for the shape \<open>*suffix\<close>: in a registry holding \<open>a_hole\<close>, the
  string \<open>*hole\<close> does not select \<open>a_hole\<close>, which ends with \<open>hole\<close>; it selects the
  names that begin with \<open>hole\<close>, none of which ends with it.
\<close>

theorem suffix_wildcard_counterexample:
  "expand_part_list env0 reg_holes [YStr ''*hole''] =
     Inr [''hole_1'', ''hole_10'', ''hole_2'', ''hole_3'', ''hole_a'', ''hole_b''] \<and>
   ''a_hole'' \<in> set (registry_list_parts reg_holes) \<and> endswith ''a_hole'' ''hole'' \<and>
   \<not> endswith ''hole_1'' ''hole''"
  by code_simp

text \<open>\<open>int\<close> on some strings; the separator \<open>0x1C\<close> is not skipped.\<close>

lemma py_int_examples:
  "py_int 4300 ''12'' = Some 12" "py_int 4300 '' +1_2 '' = Some 12" "py_int 4300 ''-007'' = Some (- 7)"
  "py_int 4300 [CHR 0x1C, CHR ''5''] = None" "py_int 4300 ''1__2'' = None" "py_int 4300 '''' = None"
  "py_int 4300 ''_1'' = None"
  by code_simp+

section \<open>The selector \<open>not\<close>\<close>

lemma simple_selectors_iff:
  "s \<in> simple_selectors \<longleftrightarrow>
     (\<exists>c1 c2. s = [c1, c2] \<and> c1 \<in> set ''><|#'' \<and> c2 \<in> set ''XYZ'')"
  unfolding simple_selectors_def by auto





lemma simple_selectors_match: "s \<in> simple_selectors \<Longrightarrow> SIMPLE_SELECTOR_match s"
  unfolding simple_selectors_iff by (auto simp: SIMPLE_SELECTOR_match_def)







end
